theory Spec2Isabelle
  imports Main "HOL-Library.Word" "HOL-Library.AList"
begin

section \<open>Strings\<close>

text \<open>
  Go strings are byte sequences; they are modelled as \<open>string\<close>. The helpers of package
  \<open>strings\<close> used by the schema package are modelled for ASCII text: \<open>ToLower\<close> and
  \<open>ToUpper\<close> map the 26 letters and leave every other byte alone.
\<close>

definition lower_char :: "char \<Rightarrow> char" where
  "lower_char c =
     (case map_of (zip ''ABCDEFGHIJKLMNOPQRSTUVWXYZ'' ''abcdefghijklmnopqrstuvwxyz'') c of
        Some d \<Rightarrow> d
      | None \<Rightarrow> c)"

definition upper_char :: "char \<Rightarrow> char" where
  "upper_char c =
     (case map_of (zip ''abcdefghijklmnopqrstuvwxyz'' ''ABCDEFGHIJKLMNOPQRSTUVWXYZ'') c of
        Some d \<Rightarrow> d
      | None \<Rightarrow> c)"

definition ToLower :: "string \<Rightarrow> string" where
  "ToLower s = map lower_char s"

definition ToUpper :: "string \<Rightarrow> string" where
  "ToUpper s = map upper_char s"

fun HasPrefix :: "string \<Rightarrow> string \<Rightarrow> bool" where
  "HasPrefix s [] = True"
| "HasPrefix [] (p # ps) = False"
| "HasPrefix (c # cs) (p # ps) = (c = p \<and> HasPrefix cs ps)"

fun Contains :: "string \<Rightarrow> string \<Rightarrow> bool" where
  "Contains [] sub = (sub = [])"
| "Contains (c # cs) sub = (HasPrefix (c # cs) sub \<or> Contains cs sub)"

fun Index :: "string \<Rightarrow> string \<Rightarrow> nat option" where
  "Index [] sub = (if sub = [] then Some 0 else None)"
| "Index (c # cs) sub =
     (if HasPrefix (c # cs) sub then Some 0 else map_option Suc (Index cs sub))"

text \<open>\<open>strings.Split(s, ",")[0]\<close>: the text before the first comma.\<close>

definition first_part :: "string \<Rightarrow> string" where
  "first_part s = takeWhile (\<lambda>c. c \<noteq> CHR '','') s"

section \<open>Types, struct fields and values (package reflect)\<close>

text \<open>
  The kinds that the walker does not descend into. \<open>int\<close> and \<open>uint\<close> are 64 bits wide
  (a 64-bit platform).
\<close>

datatype Kind =
    KBool
  | KInt | KInt8 | KInt16 | KInt32 | KInt64
  | KUint | KUint8 | KUint16 | KUint32 | KUint64 | KUintptr
  | KFloat32 | KFloat64 | KComplex64 | KComplex128
  | KChan | KFunc | KInterface | KMap | KString | KUnsafePointer

text \<open>
  A type is a finite tree: a basic kind, a struct with its name (empty for an anonymous
  struct) and fields, a slice, an array or a pointer. A struct tag is the list of its
  \<open>key:"value"\<close> pairs. Self-referential types are not finite trees and are outside the
  model.
\<close>

datatype Type =
    TBasic Kind
  | TStruct string "StructField list"
  | TSlice Type
  | TArray Type
  | TPtr Type
and StructField =
    StructField (Name: string) (Tag: "(string \<times> string) list") (FType: Type)

definition is_int_kind :: "Kind \<Rightarrow> bool" where
  "is_int_kind k = (k \<in> set [KInt, KInt8, KInt16, KInt32, KInt64])"

definition is_uint_kind :: "Kind \<Rightarrow> bool" where
  "is_uint_kind k = (k \<in> set [KUint, KUint8, KUint16, KUint32, KUint64])"

definition is_float_kind :: "Kind \<Rightarrow> bool" where
  "is_float_kind k = (k \<in> set [KFloat32, KFloat64])"

text \<open>The width in bits of an integer kind.\<close>

fun bits :: "Kind \<Rightarrow> nat" where
  "bits KInt8 = 8"
| "bits KUint8 = 8"
| "bits KInt16 = 16"
| "bits KUint16 = 16"
| "bits KInt32 = 32"
| "bits KUint32 = 32"
| "bits k = 64"

text \<open>\<open>Kind.String()\<close>, as printed by the \<open>%s\<close> verb.\<close>

fun kind_name :: "Kind \<Rightarrow> string" where
  "kind_name KBool = ''bool''"
| "kind_name KInt = ''int''"
| "kind_name KInt8 = ''int8''"
| "kind_name KInt16 = ''int16''"
| "kind_name KInt32 = ''int32''"
| "kind_name KInt64 = ''int64''"
| "kind_name KUint = ''uint''"
| "kind_name KUint8 = ''uint8''"
| "kind_name KUint16 = ''uint16''"
| "kind_name KUint32 = ''uint32''"
| "kind_name KUint64 = ''uint64''"
| "kind_name KUintptr = ''uintptr''"
| "kind_name KFloat32 = ''float32''"
| "kind_name KFloat64 = ''float64''"
| "kind_name KComplex64 = ''complex64''"
| "kind_name KComplex128 = ''complex128''"
| "kind_name KChan = ''chan''"
| "kind_name KFunc = ''func''"
| "kind_name KInterface = ''interface''"
| "kind_name KMap = ''map''"
| "kind_name KString = ''string''"
| "kind_name KUnsafePointer = ''unsafe.Pointer''"

fun type_kind_name :: "Type \<Rightarrow> string" where
  "type_kind_name (TBasic k) = kind_name k"
| "type_kind_name (TStruct n fs) = ''struct''"
| "type_kind_name (TSlice t) = ''slice''"
| "type_kind_name (TArray t) = ''array''"
| "type_kind_name (TPtr t) = ''ptr''"

text \<open>
  A \<open>float64\<close> is its 64 bits (IEEE 754); the model never computes with one, so the number
  zero, all bits clear, is the only one it names. What the standard library and the two
  third-party libraries do is a parameter of the model, collected in the record
  \<open>extern\<close> below:
  \<^item> \<open>ParseFloat\<close>: \<open>strconv.ParseFloat(s, 64)\<close>, an error text or the number;
    \<open>SetFloat32\<close>: the rounding of a \<open>float64\<close> stored into a \<open>float32\<close> field;
    \<open>float_to_int\<close>: the conversion \<open>int(f)\<close>;
  \<^item> \<open>ShouldBindJSON\<close>: gin's decoding of the request body into a copy of the Body
    sub-record, an error text or the decoded value;
  \<^item> \<open>validate_Struct\<close>: the validator's \<open>Struct\<close> on the whole instance, \<open>None\<close> when
    every rule holds, else the error text;
  \<^item> \<open>Summary\<close>: the operation summary, built with a regular expression.
\<close>

datatype float64 = Float64 "64 word"

definition float_zero :: float64 where
  "float_zero = Float64 0"

datatype Value =
    VBool bool
  | VInt int
  | VUint nat
  | VFloat float64
  | VString string
  | VStruct "Value list"
  | VSlice "Value list"
  | VPtr "Value option"
  | VOpaque

text \<open>
  \<open>field.Tag.Get(key)\<close>: the value of the first pair with that key, the empty string when
  there is none.
\<close>

definition Tag_Get :: "StructField \<Rightarrow> string \<Rightarrow> string" where
  "Tag_Get f key = (case map_of (Tag f) key of Some v \<Rightarrow> v | None \<Rightarrow> [])"

text \<open>
  \<open>IsExported\<close>: the name starts with an upper-case letter. The instance is reached
  through a pointer, so \<open>CanSet\<close> holds exactly for the exported fields.
\<close>

definition IsExported :: "StructField \<Rightarrow> bool" where
  "IsExported f = (case Name f of [] \<Rightarrow> False | c # cs \<Rightarrow> c \<in> set ''ABCDEFGHIJKLMNOPQRSTUVWXYZ'')"

definition CanSet :: "StructField \<Rightarrow> bool" where
  "CanSet f = IsExported f"

section \<open>Tag helpers (schema.go)\<close>

definition getTagValue :: "StructField \<Rightarrow> string \<Rightarrow> string" where
  "getTagValue f tagName =
     (let tag = Tag_Get f tagName in if tag = [] then [] else first_part tag)"

definition isRequired :: "StructField \<Rightarrow> bool" where
  "isRequired f =
     list_ex (\<lambda>tagName. Contains (Tag_Get f tagName) ''required'')
       [''validate'', ''binding'', ''query'', ''param'', ''json'']"

text \<open>\<open>hasRequiredFields\<close> calls \<open>NumField\<close>, which panics on a type that is no struct.\<close>

fun hasRequiredFields :: "Type \<Rightarrow> bool option" where
  "hasRequiredFields (TStruct n fs) = Some (list_ex isRequired fs)"
| "hasRequiredFields t = None"

section \<open>Number parsing (package strconv, base 10, 64 bits)\<close>

datatype strconv_err = ErrSyntax | ErrRange

definition digit_of :: "char \<Rightarrow> nat option" where
  "digit_of c = map_of (zip ''0123456789'' [0, 1, 2, 3, 4, 5, 6, 7, 8, 9]) c"

text \<open>
  The digit loop of \<open>ParseUint\<close>: a byte that is no digit is a syntax error, a value past
  \<open>2^64 - 1\<close> a range error, whichever comes first in the text.
\<close>

fun ParseUint_loop :: "nat \<Rightarrow> string \<Rightarrow> strconv_err + nat" where
  "ParseUint_loop n [] = Inr n"
| "ParseUint_loop n (c # cs) =
     (case digit_of c of
        None \<Rightarrow> Inl ErrSyntax
      | Some d \<Rightarrow>
          if n \<ge> 2 ^ 64 div 10 + 1 then Inl ErrRange
          else if n * 10 + d > 2 ^ 64 - 1 then Inl ErrRange
          else ParseUint_loop (n * 10 + d) cs)"

definition ParseUint :: "string \<Rightarrow> strconv_err + nat" where
  "ParseUint s = (if s = [] then Inl ErrSyntax else ParseUint_loop 0 s)"

definition ParseInt :: "string \<Rightarrow> strconv_err + int" where
  "ParseInt s0 =
     (case s0 of
        [] \<Rightarrow> Inl ErrSyntax
      | c # cs \<Rightarrow>
          let neg = (c = CHR ''-'');
              s = (if c = CHR ''+'' \<or> c = CHR ''-'' then cs else s0)
          in (case ParseUint s of
                Inl e \<Rightarrow> Inl e
              | Inr un \<Rightarrow>
                  if \<not> neg \<and> un \<ge> 2 ^ 63 then Inl ErrRange
                  else if neg \<and> un > 2 ^ 63 then Inl ErrRange
                  else Inr (if neg then - int un else int un)))"

text \<open>
  The number that a text of decimal digits denotes; used to state what the two parsing
  functions return.
\<close>

definition decimal :: "string \<Rightarrow> nat" where
  "decimal s = foldl (\<lambda>n c. n * 10 + the (digit_of c)) 0 s"

definition ParseBool :: "string \<Rightarrow> strconv_err + bool" where
  "ParseBool s =
     (if s \<in> set [''1'', ''t'', ''T'', ''TRUE'', ''true'', ''True''] then Inr True
      else if s \<in> set [''0'', ''f'', ''F'', ''FALSE'', ''false'', ''False''] then Inr False
      else Inl ErrSyntax)"

text \<open>
  \<open>strconv.Quote\<close> for printable ASCII text: the text between double quotes, with a
  backslash before a double quote and before a backslash.
\<close>

definition Quote :: "string \<Rightarrow> string" where
  "Quote s =
     [CHR 0x22] @
     concat (map (\<lambda>c. if c = CHR 0x22 \<or> c = CHR 0x5C then [CHR 0x5C, c] else [c]) s) @
     [CHR 0x22]"

text \<open>\<open>NumError.Error()\<close>.\<close>

definition NumError :: "string \<Rightarrow> string \<Rightarrow> strconv_err \<Rightarrow> string" where
  "NumError fn num e =
     ''strconv.'' @ fn @ '': parsing '' @ Quote num @ '': '' @
     (case e of ErrSyntax \<Rightarrow> ''invalid syntax'' | ErrRange \<Rightarrow> ''value out of range'')"

text \<open>
  \<open>reflect.Value.SetInt\<close> and \<open>SetUint\<close> convert the 64-bit number to the field's own
  integer type: the low \<open>w\<close> bits, read in two's complement for a signed field.
\<close>

definition SetInt :: "Kind \<Rightarrow> int \<Rightarrow> int" where
  "SetInt k x = (x + 2 ^ (bits k - 1)) mod 2 ^ bits k - 2 ^ (bits k - 1)"

definition SetUint :: "Kind \<Rightarrow> nat \<Rightarrow> nat" where
  "SetUint k x = x mod 2 ^ bits k"

section \<open>The request and the libraries around the parser\<close>

record Context =
  Param :: "string \<Rightarrow> string"
  Query :: "string \<Rightarrow> string"
  GetHeader :: "string \<Rightarrow> string"
  Cookie :: "string \<Rightarrow> string"
  ContentLength :: int
  Keys :: "(string \<times> string) list"

record extern =
  ParseFloat :: "string \<Rightarrow> string + float64"
  SetFloat32 :: "float64 \<Rightarrow> float64"
  float_to_int :: "float64 \<Rightarrow> int"
  ShouldBindJSON :: "Context \<Rightarrow> Type \<Rightarrow> Value \<Rightarrow> string + Value"
  validate_Struct :: "Type \<Rightarrow> Value \<Rightarrow> string option"
  Summary :: "string \<Rightarrow> string \<Rightarrow> string"

section \<open>The request parser (schema.go)\<close>

definition setFieldValue :: "extern \<Rightarrow> Type \<Rightarrow> string \<Rightarrow> string + Value" where
  "setFieldValue ext t val =
     (case t of
        TBasic k \<Rightarrow>
          if k = KString then Inr (VString val)
          else if is_int_kind k then
            (case ParseInt val of
               Inl e \<Rightarrow> Inl (NumError ''ParseInt'' val e)
             | Inr intVal \<Rightarrow> Inr (VInt (SetInt k intVal)))
          else if is_uint_kind k then
            (case ParseUint val of
               Inl e \<Rightarrow> Inl (NumError ''ParseUint'' val e)
             | Inr uintVal \<Rightarrow> Inr (VUint (SetUint k uintVal)))
          else if is_float_kind k then
            (case ParseFloat ext val of
               Inl e \<Rightarrow> Inl e
             | Inr floatVal \<Rightarrow>
                 Inr (VFloat (if k = KFloat32 then SetFloat32 ext floatVal else floatVal)))
          else if k = KBool then
            (case ParseBool val of
               Inl e \<Rightarrow> Inl (NumError ''ParseBool'' val e)
             | Inr boolVal \<Rightarrow> Inr (VBool boolVal))
          else Inl (''unsupported field type: '' @ kind_name k)
      | _ \<Rightarrow> Inl (''unsupported field type: '' @ type_kind_name t))"

text \<open>
  How a parsing function ends: it returns \<open>nil\<close>, it returns an error with its text, or it
  panics (\<open>NumField\<close> on a value that is no struct). The instance is changed in place, so
  every function also returns the value as it stands when the function ends.
\<close>

datatype status = OK | Failed string | Panicked

text \<open>
  Each loop runs over the fields of the struct type and the components of the value side by
  side; a struct value has one component for each field of its type, so the equations for
  a value with fewer components are never reached.
\<close>

fun parseParams_loop ::
  "extern \<Rightarrow> Context \<Rightarrow> StructField list \<Rightarrow> Value list \<Rightarrow> status \<times> Value list" where
  "parseParams_loop ext c [] vs = (OK, vs)"
| "parseParams_loop ext c (f # fs) [] = (OK, [])"
| "parseParams_loop ext c (f # fs) (v # vs) =
     (if \<not> CanSet f then
        (case parseParams_loop ext c fs vs of (st, vs') \<Rightarrow> (st, v # vs'))
      else
        let paramName =
              (if getTagValue f ''param'' = [] then ToLower (Name f)
               else getTagValue f ''param'');
            paramValue = Param c paramName
        in if paramValue = [] then
             (if isRequired f then
                (Failed (''required param '' @ [CHR 0x27] @ paramName @ [CHR 0x27] @ '' is missing''),
                 v # vs)
              else (case parseParams_loop ext c fs vs of (st, vs') \<Rightarrow> (st, v # vs')))
           else
             (case setFieldValue ext (FType f) paramValue of
                Inl e \<Rightarrow>
                  (Failed (''invalid param '' @ [CHR 0x27] @ paramName @ [CHR 0x27] @ '': '' @ e),
                   v # vs)
              | Inr v' \<Rightarrow>
                  (case parseParams_loop ext c fs vs of (st, vs') \<Rightarrow> (st, v' # vs'))))"

definition parseParams :: "extern \<Rightarrow> Context \<Rightarrow> Type \<Rightarrow> Value \<Rightarrow> status \<times> Value" where
  "parseParams ext c t v =
     (case (t, v) of
        (TStruct n fs, VStruct vs) \<Rightarrow>
          (case parseParams_loop ext c fs vs of (st, vs') \<Rightarrow> (st, VStruct vs'))
      | _ \<Rightarrow> (Panicked, v))"

text \<open>
  The name and the raw value of a query field: the \<open>query\<close> tag (or the field name), then
  the field name, then the lower-cased field name, the first that has a value.
\<close>

definition query_lookup :: "Context \<Rightarrow> StructField \<Rightarrow> string \<times> string" where
  "query_lookup c f =
     (let queryName = (if getTagValue f ''query'' = [] then Name f else getTagValue f ''query'');
          queryValue = Query c queryName
      in if queryValue = [] then
           (if Query c (Name f) \<noteq> [] then (Name f, Query c (Name f))
            else if Query c (ToLower (Name f)) \<noteq> [] then
              (ToLower (Name f), Query c (ToLower (Name f)))
            else (queryName, queryValue))
         else (queryName, queryValue))"

fun parseQuery_loop ::
  "extern \<Rightarrow> Context \<Rightarrow> StructField list \<Rightarrow> Value list \<Rightarrow> status \<times> Value list" where
  "parseQuery_loop ext c [] vs = (OK, vs)"
| "parseQuery_loop ext c (f # fs) [] = (OK, [])"
| "parseQuery_loop ext c (f # fs) (v # vs) =
     (if \<not> CanSet f then
        (case parseQuery_loop ext c fs vs of (st, vs') \<Rightarrow> (st, v # vs'))
      else
        let queryName = fst (query_lookup c f);
            queryValue = snd (query_lookup c f)
        in if queryValue = [] \<and> getTagValue f ''default'' = [] then
             (if isRequired f then
                (Failed (''required query param '' @ [CHR 0x27] @ queryName @ [CHR 0x27] @
                         '' is missing''),
                 v # vs)
              else (case parseQuery_loop ext c fs vs of (st, vs') \<Rightarrow> (st, v # vs')))
           else
             (case setFieldValue ext (FType f)
                     (if queryValue = [] then getTagValue f ''default'' else queryValue) of
                Inl e \<Rightarrow>
                  (Failed (''invalid query param '' @ [CHR 0x27] @ queryName @ [CHR 0x27] @
                           '': '' @ e),
                   v # vs)
              | Inr v' \<Rightarrow>
                  (case parseQuery_loop ext c fs vs of (st, vs') \<Rightarrow> (st, v' # vs'))))"

definition parseQuery :: "extern \<Rightarrow> Context \<Rightarrow> Type \<Rightarrow> Value \<Rightarrow> status \<times> Value" where
  "parseQuery ext c t v =
     (case (t, v) of
        (TStruct n fs, VStruct vs) \<Rightarrow>
          (case parseQuery_loop ext c fs vs of (st, vs') \<Rightarrow> (st, VStruct vs'))
      | _ \<Rightarrow> (Panicked, v))"

definition parseBody :: "extern \<Rightarrow> Context \<Rightarrow> Type \<Rightarrow> Value \<Rightarrow> status \<times> Value" where
  "parseBody ext c t v =
     (if ContentLength c = 0 then
        (case hasRequiredFields t of
           None \<Rightarrow> (Panicked, v)
         | Some True \<Rightarrow> (Failed ''request body is required'', v)
         | Some False \<Rightarrow> (OK, v))
      else
        (case ShouldBindJSON ext c t v of
           Inl e \<Rightarrow> (Failed (''invalid JSON body: '' @ e), v)
         | Inr v' \<Rightarrow> (OK, v')))"

text \<open>The first pass of \<open>parseSchema\<close>, over the top-level fields in their declared order.\<close>

fun parseSchema_loop ::
  "extern \<Rightarrow> Context \<Rightarrow> StructField list \<Rightarrow> Value list \<Rightarrow> status \<times> Value list" where
  "parseSchema_loop ext c [] vs = (OK, vs)"
| "parseSchema_loop ext c (f # fs) [] = (OK, [])"
| "parseSchema_loop ext c (f # fs) (v # vs) =
     (let fieldName = ToLower (Name f) in
      if \<not> CanSet f then
        (case parseSchema_loop ext c fs vs of (st, vs') \<Rightarrow> (st, v # vs'))
      else if fieldName = ''params'' then
        (case parseParams ext c (FType f) v of
           (OK, v') \<Rightarrow> (case parseSchema_loop ext c fs vs of (st, vs') \<Rightarrow> (st, v' # vs'))
         | (Failed e, v') \<Rightarrow> (Failed (''params validation failed: '' @ e), v' # vs)
         | (Panicked, v') \<Rightarrow> (Panicked, v' # vs))
      else if fieldName = ''query'' then
        (case parseQuery ext c (FType f) v of
           (OK, v') \<Rightarrow> (case parseSchema_loop ext c fs vs of (st, vs') \<Rightarrow> (st, v' # vs'))
         | (Failed e, v') \<Rightarrow> (Failed (''query validation failed: '' @ e), v' # vs)
         | (Panicked, v') \<Rightarrow> (Panicked, v' # vs))
      else if fieldName = ''body'' then
        (case parseBody ext c (FType f) v of
           (OK, v') \<Rightarrow> (case parseSchema_loop ext c fs vs of (st, vs') \<Rightarrow> (st, v' # vs'))
         | (Failed e, v') \<Rightarrow> (Failed (''body validation failed: '' @ e), v' # vs)
         | (Panicked, v') \<Rightarrow> (Panicked, v' # vs))
      else
        (case parseSchema_loop ext c fs vs of (st, vs') \<Rightarrow> (st, v # vs')))"

definition parseSchema :: "extern \<Rightarrow> Context \<Rightarrow> Type \<Rightarrow> Value \<Rightarrow> status \<times> Value" where
  "parseSchema ext c t v =
     (case (t, v) of
        (TStruct n fs, VStruct vs) \<Rightarrow>
          (case parseSchema_loop ext c fs vs of
             (OK, vs') \<Rightarrow>
               (case validate_Struct ext t (VStruct vs') of
                  Some e \<Rightarrow> (Failed (''validation failed: '' @ e), VStruct vs')
                | None \<Rightarrow> (OK, VStruct vs'))
           | (st, vs') \<Rightarrow> (st, VStruct vs'))
      | _ \<Rightarrow> (Panicked, v))"

section \<open>Errors and the boundary mapping (result.go, schema.go)\<close>

text \<open>
  The error values that reach \<open>convertToErrorResult\<close>: a \<open>SchemaError\<close>, an
  \<open>ErrorResult\<close> used as an error, or any other error, known by its text.
\<close>

datatype error =
    SchemaError string string
  | ErrorResultError string string
  | ErrorString string

fun Error :: "error \<Rightarrow> string" where
  "Error (SchemaError code message) = ''['' @ code @ ''] '' @ message"
| "Error (ErrorResultError code message) = ''['' @ code @ ''] '' @ message"
| "Error (ErrorString s) = s"

record ErrorInfo =
  Code :: string
  Message :: string

definition NotOk :: "string \<Rightarrow> string \<Rightarrow> ErrorInfo" where
  "NotOk code message = \<lparr>Code = code, Message = message\<rparr>"

definition extractValidationMessage :: "string \<Rightarrow> string" where
  "extractValidationMessage errMsg =
     (case Index errMsg ''validation failed: '' of
        Some idx \<Rightarrow> drop (idx + length ''validation failed: '') errMsg
      | None \<Rightarrow>
          (case Index errMsg '': '' of
             Some idx \<Rightarrow> drop (idx + 2) errMsg
           | None \<Rightarrow> errMsg))"

definition convertToErrorResult :: "error \<Rightarrow> ErrorInfo" where
  "convertToErrorResult err =
     (case err of
        SchemaError code message \<Rightarrow> NotOk code message
      | _ \<Rightarrow>
          let errMsg = Error err in
          if Contains errMsg ''params validation failed'' then
            NotOk ''ERR_INVALID_PARAMS'' (extractValidationMessage errMsg)
          else if Contains errMsg ''query validation failed'' then
            NotOk ''ERR_INVALID_QUERY'' (extractValidationMessage errMsg)
          else if Contains errMsg ''body validation failed'' then
            NotOk ''ERR_INVALID_BODY'' (extractValidationMessage errMsg)
          else if Contains errMsg ''validation failed'' then
            NotOk ''ERR_VALIDATION_FAILED'' (extractValidationMessage errMsg)
          else if Contains errMsg ''required'' \<and> Contains errMsg ''missing'' then
            NotOk ''ERR_MISSING_REQUIRED'' errMsg
          else if Contains errMsg ''invalid JSON'' then
            NotOk ''ERR_INVALID_JSON'' ''Request body contains invalid JSON''
          else NotOk ''ERR_NOT_SPECIFIED'' ''An unknown exception occurred'')"

text \<open>
  The handler built by \<open>ValidateAndHandle\<close>, up to the call of the user's handler: the
  instance when parsing succeeds, else the error result that is sent with status 400.
  A panic leaves the handler.
\<close>

datatype parsed = Instance Value | BadRequest ErrorInfo | Panic

definition ginHandler_parse :: "extern \<Rightarrow> Context \<Rightarrow> Type \<Rightarrow> Value \<Rightarrow> parsed" where
  "ginHandler_parse ext c t zero =
     (case parseSchema ext c t zero of
        (OK, schema) \<Rightarrow> Instance schema
      | (Failed e, schema) \<Rightarrow> BadRequest (convertToErrorResult (ErrorString e))
      | (Panicked, schema) \<Rightarrow> Panic)"

section \<open>The document generator: schema nodes\<close>

text \<open>
  A value of type \<open>interface{}\<close> stored as the default of a node.
\<close>

datatype AnyValue = AString string | AInt int | AFloat float64 | ABool bool

text \<open>
  A \<open>JSONSchema\<close> node with the fields that the generator assigns (Description, Example,
  Pattern and AdditionalProperties are never assigned and are left out). A Go map is an
  association list with at most one pair for each key: \<open>m[k] = v\<close> is \<open>AList.update k v m\<close>
  and a lookup is \<open>map_of m k\<close>. A nil pointer is \<open>None\<close>, an empty text is \<open>[]\<close>.
\<close>

datatype JSONSchema = JSONSchema
  (Type: string)
  (Properties: "(string \<times> JSONSchema) list")
  (Items: "JSONSchema option")
  (Required: "string list")
  (Default: "AnyValue option")
  (Minimum: "float64 option")
  (Maximum: "float64 option")
  (MinLength: "int option")
  (MaxLength: "int option")
  (Format: string)
  (Ref: string)

type_synonym Schemas = "(string \<times> JSONSchema) list"

definition newJSONSchema :: "string \<Rightarrow> (string \<times> JSONSchema) list \<Rightarrow> JSONSchema" where
  "newJSONSchema schemaType properties =
     JSONSchema schemaType properties None [] None None None None None [] []"

definition RefSchema :: "string \<Rightarrow> JSONSchema" where
  "RefSchema schemaName =
     JSONSchema [] [] None [] None None None None None [] (''#/components/schemas/'' @ schemaName)"

text \<open>Assignments to one field of a node.\<close>

fun set_Items :: "JSONSchema \<Rightarrow> JSONSchema \<Rightarrow> JSONSchema" where
  "set_Items (JSONSchema t p i r d mn mx ml xl f rf) x = JSONSchema t p (Some x) r d mn mx ml xl f rf"

fun set_Required :: "JSONSchema \<Rightarrow> string list \<Rightarrow> JSONSchema" where
  "set_Required (JSONSchema t p i r d mn mx ml xl f rf) x = JSONSchema t p i x d mn mx ml xl f rf"

fun set_Default :: "JSONSchema \<Rightarrow> AnyValue \<Rightarrow> JSONSchema" where
  "set_Default (JSONSchema t p i r d mn mx ml xl f rf) x = JSONSchema t p i r (Some x) mn mx ml xl f rf"

fun set_Minimum :: "JSONSchema \<Rightarrow> float64 \<Rightarrow> JSONSchema" where
  "set_Minimum (JSONSchema t p i r d mn mx ml xl f rf) x = JSONSchema t p i r d (Some x) mx ml xl f rf"

fun set_Maximum :: "JSONSchema \<Rightarrow> float64 \<Rightarrow> JSONSchema" where
  "set_Maximum (JSONSchema t p i r d mn mx ml xl f rf) x = JSONSchema t p i r d mn (Some x) ml xl f rf"

fun set_MinLength :: "JSONSchema \<Rightarrow> int \<Rightarrow> JSONSchema" where
  "set_MinLength (JSONSchema t p i r d mn mx ml xl f rf) x = JSONSchema t p i r d mn mx (Some x) xl f rf"

fun set_MaxLength :: "JSONSchema \<Rightarrow> int \<Rightarrow> JSONSchema" where
  "set_MaxLength (JSONSchema t p i r d mn mx ml xl f rf) x = JSONSchema t p i r d mn mx ml (Some x) f rf"

fun set_Format :: "JSONSchema \<Rightarrow> string \<Rightarrow> JSONSchema" where
  "set_Format (JSONSchema t p i r d mn mx ml xl f rf) x = JSONSchema t p i r d mn mx ml xl x rf"

section \<open>The document generator: field names and constraints\<close>

definition getJSONFieldName :: "StructField \<Rightarrow> string" where
  "getJSONFieldName f =
     (let jsonTag = Tag_Get f ''json'' in
      if jsonTag = [] then ToLower (Name f)
      else if first_part jsonTag = [] then ToLower (Name f)
      else first_part jsonTag)"

text \<open>\<open>strings.Split(s, ",")\<close> and \<open>strings.TrimSpace\<close> (ASCII white space).\<close>

fun Split_acc :: "string \<Rightarrow> string \<Rightarrow> string list" where
  "Split_acc acc [] = [rev acc]"
| "Split_acc acc (c # cs) =
     (if c = CHR '','' then rev acc # Split_acc [] cs else Split_acc (c # acc) cs)"

definition Split :: "string \<Rightarrow> string list" where
  "Split s = Split_acc [] s"

definition is_space :: "char \<Rightarrow> bool" where
  "is_space c = (c \<in> set [CHR 0x20, CHR 0x09, CHR 0x0A, CHR 0x0B, CHR 0x0C, CHR 0x0D])"

definition TrimSpace :: "string \<Rightarrow> string" where
  "TrimSpace s = rev (dropWhile is_space (rev (dropWhile is_space s)))"

definition addConstraint :: "extern \<Rightarrow> JSONSchema \<Rightarrow> string \<Rightarrow> JSONSchema" where
  "addConstraint ext schema raw =
     (let constraint = TrimSpace raw in
      if HasPrefix constraint ''min='' then
        (case ParseFloat ext (drop 4 constraint) of
           Inr val \<Rightarrow>
             if Type schema = ''string'' then set_MinLength schema (float_to_int ext val)
             else set_Minimum schema val
         | Inl e \<Rightarrow> schema)
      else if HasPrefix constraint ''max='' then
        (case ParseFloat ext (drop 4 constraint) of
           Inr val \<Rightarrow>
             if Type schema = ''string'' then set_MaxLength schema (float_to_int ext val)
             else set_Maximum schema val
         | Inl e \<Rightarrow> schema)
      else if constraint = ''email'' then set_Format schema ''email''
      else schema)"

definition addValidationConstraints :: "extern \<Rightarrow> JSONSchema \<Rightarrow> StructField \<Rightarrow> JSONSchema" where
  "addValidationConstraints ext schema f =
     (let validateTag = Tag_Get f ''validate'' in
      if validateTag = [] then schema
      else foldl (addConstraint ext) schema (Split validateTag))"

section \<open>The document generator: schemas of types\<close>

text \<open>The node of a basic kind; it does not touch the table.\<close>

definition basicSchema :: "Kind \<Rightarrow> JSONSchema" where
  "basicSchema k =
     (if k = KString then newJSONSchema ''string'' []
      else if is_int_kind k then newJSONSchema ''integer'' []
      else if is_uint_kind k then set_Minimum (newJSONSchema ''integer'' []) float_zero
      else if is_float_kind k then newJSONSchema ''number'' []
      else if k = KBool then newJSONSchema ''boolean'' []
      else newJSONSchema ''object'' [])"

text \<open>
  The name under which a struct is stored, and the context name handed down for a field:
  non-empty only for a field whose own type is an anonymous struct.
\<close>

definition structSchemaName :: "string \<Rightarrow> string \<Rightarrow> string" where
  "structSchemaName typeName contextName =
     (if typeName = [] then (if contextName \<noteq> [] then contextName else ''AnonymousStruct'')
      else typeName)"

fun isAnonymousStruct :: "Type \<Rightarrow> bool" where
  "isAnonymousStruct (TStruct n fs) = (n = [])"
| "isAnonymousStruct t = False"

definition fieldContext :: "string \<Rightarrow> string \<Rightarrow> StructField \<Rightarrow> string" where
  "fieldContext schemaName contextName f =
     (if isAnonymousStruct (FType f) then
        (let jsonName = getJSONFieldName f;
             parentName = (if schemaName = ''AnonymousStruct'' then contextName else schemaName);
             capitalizedJsonName = ToUpper (take 1 jsonName) @ drop 1 jsonName
         in parentName @ capitalizedJsonName)
      else [])"

text \<open>
  \<open>generateJSONSchemaFromTypeWithContext\<close> (one pointer is followed, then the switch on
  the kind), \<open>generateStructSchemaWithContext\<close> and its loop over the fields. The table
  of named schemas is passed in and returned. In the loop, \<open>properties\<close> and \<open>required\<close>
  are the map and the slice built so far.
\<close>

function (sequential) generateJSONSchemaFromTypeWithContext ::
      "extern \<Rightarrow> Type \<Rightarrow> Schemas \<Rightarrow> string \<Rightarrow> JSONSchema \<times> Schemas"
and generate_switch ::
      "extern \<Rightarrow> Type \<Rightarrow> Schemas \<Rightarrow> string \<Rightarrow> JSONSchema \<times> Schemas"
and generateStructSchemaWithContext ::
      "extern \<Rightarrow> Type \<Rightarrow> Schemas \<Rightarrow> string \<Rightarrow> JSONSchema \<times> Schemas"
and generateStruct_fields ::
      "extern \<Rightarrow> string \<Rightarrow> string \<Rightarrow> StructField list \<Rightarrow> Schemas \<Rightarrow>
       (string \<times> JSONSchema) list \<Rightarrow> string list \<Rightarrow>
       (string \<times> JSONSchema) list \<times> string list \<times> Schemas"
where
  "generateJSONSchemaFromTypeWithContext ext (TPtr t) schemas contextName =
     generate_switch ext t schemas contextName"
| "generateJSONSchemaFromTypeWithContext ext t schemas contextName =
     generate_switch ext t schemas contextName"
| "generate_switch ext (TBasic k) schemas contextName = (basicSchema k, schemas)"
| "generate_switch ext (TSlice t) schemas contextName =
     (case generateJSONSchemaFromTypeWithContext ext t schemas (contextName @ ''Item'') of
        (items, schemas') \<Rightarrow> (set_Items (newJSONSchema ''array'' []) items, schemas'))"
| "generate_switch ext (TArray t) schemas contextName =
     (case generateJSONSchemaFromTypeWithContext ext t schemas (contextName @ ''Item'') of
        (items, schemas') \<Rightarrow> (set_Items (newJSONSchema ''array'' []) items, schemas'))"
| "generate_switch ext (TStruct n fs) schemas contextName =
     generateStructSchemaWithContext ext (TStruct n fs) schemas contextName"
| "generate_switch ext (TPtr t) schemas contextName = (newJSONSchema ''object'' [], schemas)"
| "generateStructSchemaWithContext ext (TStruct n fs) schemas contextName =
     (let schemaName = structSchemaName n contextName in
      if map_of schemas schemaName \<noteq> None then (RefSchema schemaName, schemas)
      else
        (case generateStruct_fields ext schemaName contextName fs schemas [] [] of
           (properties, required, schemas') \<Rightarrow>
             (let schema = newJSONSchema ''object'' properties;
                  schema' = (if required \<noteq> [] then set_Required schema required else schema)
              in (RefSchema schemaName, AList.update schemaName schema' schemas'))))"
| "generateStructSchemaWithContext ext (TPtr (TStruct n fs)) schemas contextName =
     generateStructSchemaWithContext ext (TStruct n fs) schemas contextName"
| "generateStructSchemaWithContext ext t schemas contextName =
     (newJSONSchema ''object'' [], schemas)"
| "generateStruct_fields ext schemaName contextName [] schemas properties required =
     (properties, required, schemas)"
| "generateStruct_fields ext schemaName contextName (f # fs) schemas properties required =
     (if \<not> IsExported f then
        generateStruct_fields ext schemaName contextName fs schemas properties required
      else if getJSONFieldName f = ''-'' then
        generateStruct_fields ext schemaName contextName fs schemas properties required
      else
        (case generateJSONSchemaFromTypeWithContext ext (FType f) schemas
                (fieldContext schemaName contextName f) of
           (fieldSchema, schemas') \<Rightarrow>
             generateStruct_fields ext schemaName contextName fs schemas'
               (AList.update (getJSONFieldName f) (addValidationConstraints ext fieldSchema f)
                  properties)
               (if isRequired f then required @ [getJSONFieldName f] else required)))"
  by pat_completeness auto

termination
  apply (relation "measure (\<lambda>x. case x of
          Inl (Inl (ext, t, schemas, contextName)) \<Rightarrow> 2 * size t + 2
        | Inl (Inr (ext, t, schemas, contextName)) \<Rightarrow> 2 * size t + 1
        | Inr (Inl (ext, t, schemas, contextName)) \<Rightarrow> 2 * size t
        | Inr (Inr (ext, schemaName, contextName, fs, schemas, properties, required)) \<Rightarrow>
            2 * size_list size fs + 1)")
         apply auto
  subgoal for f fs by (cases f) simp
  done

definition generateJSONSchemaFromType :: "extern \<Rightarrow> Type \<Rightarrow> Schemas \<Rightarrow> JSONSchema \<times> Schemas" where
  "generateJSONSchemaFromType ext t schemas =
     generateJSONSchemaFromTypeWithContext ext t schemas []"

section \<open>The document generator: parameters, request body, responses\<close>

datatype Parameter = Parameter
  (ParamName: string)
  (In: string)
  (ParamRequired: bool)
  (ParamSchema: JSONSchema)

text \<open>\<open>parseDefaultValue\<close>: the default as a value of the field's kind, else as text.\<close>

definition parseDefaultValue :: "extern \<Rightarrow> string \<Rightarrow> Type \<Rightarrow> AnyValue" where
  "parseDefaultValue ext defaultVal fieldType =
     (case fieldType of
        TBasic k \<Rightarrow>
          if k = KString then AString defaultVal
          else if is_int_kind k then
            (case ParseInt defaultVal of Inr val \<Rightarrow> AInt val | Inl e \<Rightarrow> AString defaultVal)
          else if is_float_kind k then
            (case ParseFloat ext defaultVal of Inr val \<Rightarrow> AFloat val | Inl e \<Rightarrow> AString defaultVal)
          else if k = KBool then
            (case ParseBool defaultVal of Inr val \<Rightarrow> ABool val | Inl e \<Rightarrow> AString defaultVal)
          else AString defaultVal
      | _ \<Rightarrow> AString defaultVal)"

text \<open>A node with the declared default of the field, when there is one.\<close>

definition withDefault :: "extern \<Rightarrow> StructField \<Rightarrow> JSONSchema \<Rightarrow> JSONSchema" where
  "withDefault ext f jsonSchema =
     (if getTagValue f ''default'' \<noteq> [] then
        set_Default jsonSchema (parseDefaultValue ext (getTagValue f ''default'') (FType f))
      else jsonSchema)"

definition is_primitive_kind :: "Kind \<Rightarrow> bool" where
  "is_primitive_kind k =
     (k = KString \<or> is_int_kind k \<or> is_uint_kind k \<or> is_float_kind k \<or> k = KBool)"

fun is_primitive :: "Type \<Rightarrow> bool" where
  "is_primitive (TBasic k) = is_primitive_kind k"
| "is_primitive t = False"

fun isQueryParameter_type :: "Type \<Rightarrow> bool" where
  "isQueryParameter_type (TStruct n fs) = False"
| "isQueryParameter_type (TPtr (TStruct n fs)) = False"
| "isQueryParameter_type (TSlice (TStruct n fs)) = False"
| "isQueryParameter_type (TBasic k) = is_primitive_kind k"
| "isQueryParameter_type (TSlice t) = is_primitive t"
| "isQueryParameter_type (TArray t) = is_primitive t"
| "isQueryParameter_type (TPtr t) = is_primitive t"

definition isQueryParameter :: "StructField \<Rightarrow> bool" where
  "isQueryParameter f = isQueryParameter_type (FType f)"

definition getQueryParameterName :: "StructField \<Rightarrow> string" where
  "getQueryParameterName f =
     (if getTagValue f ''query'' \<noteq> [] then getTagValue f ''query''
      else if getJSONFieldName f \<noteq> [] \<and> getJSONFieldName f \<noteq> ''-'' then getJSONFieldName f
      else ToLower (Name f))"

text \<open>The field lists that the three extracting functions walk: one pointer is followed.\<close>

fun struct_fields :: "Type \<Rightarrow> StructField list option" where
  "struct_fields (TStruct n fs) = Some fs"
| "struct_fields (TPtr (TStruct n fs)) = Some fs"
| "struct_fields t = None"

fun extractPathParameters_loop ::
  "extern \<Rightarrow> StructField list \<Rightarrow> Schemas \<Rightarrow> Parameter list \<times> Schemas" where
  "extractPathParameters_loop ext [] schemas = ([], schemas)"
| "extractPathParameters_loop ext (f # fs) schemas =
     (let paramName = (if getTagValue f ''param'' = [] then ToLower (Name f)
                       else getTagValue f ''param'')
      in case generateJSONSchemaFromType ext (FType f) schemas of
           (jsonSchema, schemas') \<Rightarrow>
             (case extractPathParameters_loop ext fs schemas' of
                (ps, schemas'') \<Rightarrow> (Parameter paramName ''path'' True jsonSchema # ps, schemas'')))"

definition extractPathParameters :: "extern \<Rightarrow> Type \<Rightarrow> Schemas \<Rightarrow> Parameter list \<times> Schemas" where
  "extractPathParameters ext paramType schemas =
     (case struct_fields paramType of
        None \<Rightarrow> ([], schemas)
      | Some fs \<Rightarrow> extractPathParameters_loop ext fs schemas)"

fun extractQueryParameters_loop ::
  "extern \<Rightarrow> StructField list \<Rightarrow> Schemas \<Rightarrow> Parameter list \<times> Schemas" where
  "extractQueryParameters_loop ext [] schemas = ([], schemas)"
| "extractQueryParameters_loop ext (f # fs) schemas =
     (let paramName = (if getTagValue f ''query'' = [] then ToLower (Name f)
                       else getTagValue f ''query'')
      in case generateJSONSchemaFromType ext (FType f) schemas of
           (jsonSchema, schemas') \<Rightarrow>
             (case extractQueryParameters_loop ext fs schemas' of
                (ps, schemas'') \<Rightarrow>
                  (Parameter paramName ''query'' (isRequired f) (withDefault ext f jsonSchema) # ps,
                   schemas'')))"

definition extractQueryParameters :: "extern \<Rightarrow> Type \<Rightarrow> Schemas \<Rightarrow> Parameter list \<times> Schemas" where
  "extractQueryParameters ext queryType schemas =
     (case struct_fields queryType of
        None \<Rightarrow> ([], schemas)
      | Some fs \<Rightarrow> extractQueryParameters_loop ext fs schemas)"

fun extractParameters_loop ::
  "extern \<Rightarrow> StructField list \<Rightarrow> Schemas \<Rightarrow> Parameter list \<times> Schemas" where
  "extractParameters_loop ext [] schemas = ([], schemas)"
| "extractParameters_loop ext (f # fs) schemas =
     (let fieldName = ToLower (Name f) in
      if fieldName = ''params'' then
        (case extractPathParameters ext (FType f) schemas of
           (pathParams, schemas') \<Rightarrow>
             (case extractParameters_loop ext fs schemas' of
                (ps, schemas'') \<Rightarrow> (pathParams @ ps, schemas'')))
      else if fieldName = ''query'' then
        (case extractQueryParameters ext (FType f) schemas of
           (queryParams, schemas') \<Rightarrow>
             (case extractParameters_loop ext fs schemas' of
                (ps, schemas'') \<Rightarrow> (queryParams @ ps, schemas'')))
      else if getTagValue f ''query'' \<noteq> [] then
        (case generateJSONSchemaFromType ext (FType f) schemas of
           (jsonSchema, schemas') \<Rightarrow>
             (case extractParameters_loop ext fs schemas' of
                (ps, schemas'') \<Rightarrow>
                  (Parameter (getTagValue f ''query'') ''query'' (isRequired f)
                     (withDefault ext f jsonSchema) # ps,
                   schemas'')))
      else if isQueryParameter f then
        (case generateJSONSchemaFromType ext (FType f) schemas of
           (jsonSchema, schemas') \<Rightarrow>
             (case extractParameters_loop ext fs schemas' of
                (ps, schemas'') \<Rightarrow>
                  (Parameter (getQueryParameterName f) ''query'' (isRequired f)
                     (withDefault ext f jsonSchema) # ps,
                   schemas'')))
      else extractParameters_loop ext fs schemas)"

definition extractParameters :: "extern \<Rightarrow> Type \<Rightarrow> Schemas \<Rightarrow> Parameter list \<times> Schemas" where
  "extractParameters ext schemaType schemas =
     (case struct_fields schemaType of
        None \<Rightarrow> ([], schemas)
      | Some fs \<Rightarrow> extractParameters_loop ext fs schemas)"

text \<open>
  The request body of the first field named \<open>body\<close>. \<open>hasRequiredFields\<close> on a Body that
  is no struct panics: the result is then \<open>None\<close>.
\<close>

datatype RequestBody = RequestBody
  (BodyDescription: string)
  (BodyContent: "(string \<times> JSONSchema) list")
  (BodyRequired: bool)

fun extractRequestBody_loop ::
  "extern \<Rightarrow> StructField list \<Rightarrow> Schemas \<Rightarrow> (RequestBody option \<times> Schemas) option" where
  "extractRequestBody_loop ext [] schemas = Some (None, schemas)"
| "extractRequestBody_loop ext (f # fs) schemas =
     (if ToLower (Name f) = ''body'' then
        (case generateJSONSchemaFromType ext (FType f) schemas of
           (jsonSchema, schemas') \<Rightarrow>
             (case hasRequiredFields (FType f) of
                None \<Rightarrow> None
              | Some req \<Rightarrow>
                  Some (Some (RequestBody ''Request body'' [(''application/json'', jsonSchema)] req),
                        schemas')))
      else extractRequestBody_loop ext fs schemas)"

definition extractRequestBody ::
  "extern \<Rightarrow> Type \<Rightarrow> Schemas \<Rightarrow> (RequestBody option \<times> Schemas) option" where
  "extractRequestBody ext schemaType schemas =
     (case struct_fields schemaType of
        None \<Rightarrow> Some (None, schemas)
      | Some fs \<Rightarrow> extractRequestBody_loop ext fs schemas)"

datatype Response = Response
  (ResponseDescription: string)
  (ResponseContent: "(string \<times> JSONSchema) list")

definition generateSuccessResponse :: "extern \<Rightarrow> Type option \<Rightarrow> Schemas \<Rightarrow> Response \<times> Schemas" where
  "generateSuccessResponse ext responseType schemas =
     (case responseType of
        None \<Rightarrow> (Response ''Success'' [], schemas)
      | Some t \<Rightarrow>
          (case generateJSONSchemaFromType ext t schemas of
             (dataSchema, schemas') \<Rightarrow>
               (Response ''Success''
                  [(''application/json'',
                    set_Required
                      (newJSONSchema ''object''
                         [(''success'', set_Default (newJSONSchema ''boolean'' []) (ABool True)),
                          (''data'', dataSchema),
                          (''error'', newJSONSchema ''null'' [])])
                      [''success'', ''data'', ''error''])],
                schemas')))"

definition generateErrorResponse :: Response where
  "generateErrorResponse =
     Response ''Error''
       [(''application/json'',
         set_Required
           (newJSONSchema ''object''
              [(''success'', set_Default (newJSONSchema ''boolean'' []) (ABool False)),
               (''error'',
                set_Required
                  (newJSONSchema ''object''
                     [(''code'', newJSONSchema ''string'' []),
                      (''message'', newJSONSchema ''string'' [])])
                  [''code'', ''message'']),
               (''data'', newJSONSchema ''null'' [])])
           [''success'', ''error'', ''data''])]"

section \<open>Security schemes (security.go)\<close>

text \<open>
  What a middleware does with a request: it calls \<open>c.Next()\<close> with the context as it has
  left it, or it aborts with a status, a code and a message.
\<close>

datatype middleware_result = Next Context | Abort nat string string

text \<open>
  The implementations of the interface \<open>SecurityScheme\<close>: the API key scheme, the bearer
  scheme, the composition of several schemes, and any other implementation, given by the
  name and the specification it returns and by what its middleware does. A validation
  function may be nil (\<open>None\<close>).
\<close>

datatype SecurityScheme =
    APIKeySecurity
      (KName: string) (KDescription: string) (KIn: string) (KeyName: string)
      (ValidateKey: "(Context \<Rightarrow> string \<Rightarrow> bool) option")
  | BearerSecurity
      (BName: string) (BDescription: string) (BearerFormat: string)
      (ValidateToken: "(Context \<Rightarrow> string \<Rightarrow> bool) option")
  | MultiSecurity (MName: string) (Schemes: "SecurityScheme list")
  | CustomSecurity
      (CName: string) (CSpec: "(string \<times> string) list")
      (CMiddleware: "Context \<Rightarrow> middleware_result")

definition Set :: "Context \<Rightarrow> string \<Rightarrow> string \<Rightarrow> Context" where
  "Set c key val = c\<lparr>Keys := AList.update key val (Keys c)\<rparr>"

fun GetSecurityScheme :: "SecurityScheme \<Rightarrow> string \<times> (string \<times> string) list" where
  "GetSecurityScheme (APIKeySecurity name description loc keyName validateKey) =
     (name,
      [(''type'', ''apiKey''), (''in'', loc), (''name'', keyName)] @
      (if description \<noteq> [] then [(''description'', description)] else []))"
| "GetSecurityScheme (BearerSecurity name description bearerFormat validateToken) =
     (name,
      [(''type'', ''http''), (''scheme'', ''bearer'')] @
      (if description \<noteq> [] then [(''description'', description)] else []) @
      (if bearerFormat \<noteq> [] then [(''bearerFormat'', bearerFormat)] else []))"
| "GetSecurityScheme (MultiSecurity name schemes) =
     (name,
      [(''type'', ''http''),
       (''description'', ''Multiple authentication methods accepted (any one will work)'')])"
| "GetSecurityScheme (CustomSecurity name spec mw) = (name, spec)"

text \<open>The key of an API key scheme in the request; \<open>None\<close> for an unknown location.\<close>

definition apiKey_of :: "string \<Rightarrow> string \<Rightarrow> Context \<Rightarrow> string option" where
  "apiKey_of loc keyName c =
     (if loc = ''header'' then Some (GetHeader c keyName)
      else if loc = ''query'' then Some (Query c keyName)
      else if loc = ''cookie'' then Some (Cookie c keyName)
      else None)"

definition APIKeySecurity_Middleware ::
  "string \<Rightarrow> string \<Rightarrow> (Context \<Rightarrow> string \<Rightarrow> bool) option \<Rightarrow> Context \<Rightarrow> middleware_result" where
  "APIKeySecurity_Middleware loc keyName validateKey c =
     (case apiKey_of loc keyName c of
        None \<Rightarrow> Abort 500 ''INTERNAL_ERROR'' ''Invalid API key location configuration''
      | Some apiKey \<Rightarrow>
          if apiKey = [] then Abort 401 ''UNAUTHORIZED'' ''API key required''
          else if validateKey \<noteq> None \<and> \<not> (the validateKey) c apiKey then
            Abort 401 ''UNAUTHORIZED'' ''Invalid API key''
          else Next (Set c ''api_key'' apiKey))"

definition BearerSecurity_Middleware ::
  "(Context \<Rightarrow> string \<Rightarrow> bool) option \<Rightarrow> Context \<Rightarrow> middleware_result" where
  "BearerSecurity_Middleware validateToken c =
     (let authHeader = GetHeader c ''Authorization'' in
      if authHeader = [] then Abort 401 ''UNAUTHORIZED'' ''Authorization header required''
      else if length authHeader < 7 \<or> \<not> HasPrefix (ToLower authHeader) ''bearer '' then
        Abort 401 ''UNAUTHORIZED'' ''Invalid authorization header format''
      else
        let token = drop 7 authHeader in
        if token = [] then Abort 401 ''UNAUTHORIZED'' ''Bearer token required''
        else if validateToken \<noteq> None \<and> \<not> (the validateToken) c token then
          Abort 401 ''UNAUTHORIZED'' ''Invalid bearer token''
        else Next (Set c ''bearer_token'' token))"

text \<open>
  The attempts of \<open>MultiSecurity\<close>: whether the scheme accepts the request, and the
  context afterwards.
\<close>

definition tryAPIKey ::
  "string \<Rightarrow> string \<Rightarrow> (Context \<Rightarrow> string \<Rightarrow> bool) option \<Rightarrow> Context \<Rightarrow> bool \<times> Context" where
  "tryAPIKey loc keyName validateKey c =
     (case apiKey_of loc keyName c of
        None \<Rightarrow> (False, c)
      | Some key \<Rightarrow>
          if key = [] then (False, c)
          else if validateKey \<noteq> None \<and> \<not> (the validateKey) c key then (False, c)
          else (True, Set (Set c ''api_key'' key) ''auth_method'' ''api_key''))"

definition tryBearer :: "(Context \<Rightarrow> string \<Rightarrow> bool) option \<Rightarrow> Context \<Rightarrow> bool \<times> Context" where
  "tryBearer validateToken c =
     (let authHeader = GetHeader c ''Authorization'' in
      if authHeader = [] then (False, c)
      else if length authHeader < 7 \<or> \<not> HasPrefix (ToLower authHeader) ''bearer '' then (False, c)
      else
        let token = drop 7 authHeader in
        if token = [] then (False, c)
        else if validateToken \<noteq> None \<and> \<not> (the validateToken) c token then (False, c)
        else (True, Set (Set c ''bearer_token'' token) ''auth_method'' ''bearer''))"

fun tryScheme :: "SecurityScheme \<Rightarrow> Context \<Rightarrow> bool \<times> Context" where
  "tryScheme (APIKeySecurity name description loc keyName validateKey) c =
     tryAPIKey loc keyName validateKey c"
| "tryScheme (BearerSecurity name description bearerFormat validateToken) c =
     tryBearer validateToken c"
| "tryScheme s c = (False, c)"

fun MultiSecurity_Middleware :: "SecurityScheme list \<Rightarrow> Context \<Rightarrow> middleware_result" where
  "MultiSecurity_Middleware [] c =
     Abort 401 ''UNAUTHORIZED'' ''Valid authentication required (API key, bearer token, etc.)''"
| "MultiSecurity_Middleware (scheme # schemes) c =
     (case tryScheme scheme c of
        (True, c') \<Rightarrow> Next c'
      | (False, c') \<Rightarrow> MultiSecurity_Middleware schemes c')"

text \<open>The middleware of a scheme, applied to a request.\<close>

fun Middleware :: "SecurityScheme \<Rightarrow> Context \<Rightarrow> middleware_result" where
  "Middleware (APIKeySecurity name description loc keyName validateKey) c =
     APIKeySecurity_Middleware loc keyName validateKey c"
| "Middleware (BearerSecurity name description bearerFormat validateToken) c =
     BearerSecurity_Middleware validateToken c"
| "Middleware (MultiSecurity name schemes) c = MultiSecurity_Middleware schemes c"
| "Middleware (CustomSecurity name spec mw) c = mw c"

section \<open>The document generator: one operation\<close>

type_synonym SecuritySchemes = "(string \<times> (string \<times> string) list) list"

text \<open>A security requirement is a map from scheme names to scopes.\<close>

type_synonym SecurityRequirement = "(string \<times> string list) list"

definition register_scheme :: "SecurityScheme \<Rightarrow> SecuritySchemes \<Rightarrow> SecuritySchemes" where
  "register_scheme scheme securitySchemes =
     (case GetSecurityScheme scheme of
        (schemeName, schemeSpec) \<Rightarrow>
          if map_of securitySchemes schemeName = None then
            AList.update schemeName schemeSpec securitySchemes
          else securitySchemes)"

text \<open>
  The loop of \<open>generateOperation\<close> over the security schemes of the route: the components
  of a \<open>MultiSecurity\<close> are registered first, then one requirement is appended for each
  of their names.
\<close>

fun generateOperation_security ::
  "SecurityScheme list \<Rightarrow> SecuritySchemes \<Rightarrow> SecurityRequirement list \<Rightarrow>
   SecurityRequirement list \<times> SecuritySchemes" where
  "generateOperation_security [] securitySchemes security = (security, securitySchemes)"
| "generateOperation_security (MultiSecurity name components # schemes) securitySchemes security =
     generateOperation_security schemes
       (foldl (\<lambda>tbl componentScheme. register_scheme componentScheme tbl) securitySchemes
          components)
       (foldl (\<lambda>sec schemeName. sec @ [[(schemeName, [])]]) security
          (map (\<lambda>componentScheme. fst (GetSecurityScheme componentScheme)) components))"
| "generateOperation_security (scheme # schemes) securitySchemes security =
     generateOperation_security schemes
       (register_scheme scheme securitySchemes)
       (security @ [[(fst (GetSecurityScheme scheme), [])]])"

record HandlerInfo =
  SchemaType :: "Type option"
  ResponseType :: "Type option"
  Method :: string
  Path :: string
  SecuritySchemes :: "SecurityScheme list"

record Operation =
  OpSummary :: string
  Parameters :: "Parameter list"
  OpRequestBody :: "RequestBody option"
  Responses :: "(string \<times> Response) list"
  Security :: "SecurityRequirement list"

text \<open>
  \<open>generateOperation\<close>: the operation and the two tables afterwards, or \<open>None\<close> when the
  request body panics.
\<close>

definition generateOperation ::
  "extern \<Rightarrow> HandlerInfo \<Rightarrow> Schemas \<Rightarrow> SecuritySchemes \<Rightarrow>
   (Operation \<times> Schemas \<times> SecuritySchemes) option" where
  "generateOperation ext info schemas securitySchemes =
     (case (if SecuritySchemes info \<noteq> []
            then generateOperation_security (SecuritySchemes info) securitySchemes []
            else ([], securitySchemes)) of
        (security, securitySchemes') \<Rightarrow>
          (case (case SchemaType info of
                   None \<Rightarrow> Some ([], None, schemas)
                 | Some t \<Rightarrow>
                     (case extractParameters ext t schemas of
                        (parameters, schemas1) \<Rightarrow>
                          (case extractRequestBody ext t schemas1 of
                             None \<Rightarrow> None
                           | Some (requestBody, schemas2) \<Rightarrow>
                               Some (parameters, requestBody, schemas2)))) of
             None \<Rightarrow> None
           | Some (parameters, requestBody, schemas2) \<Rightarrow>
               (case generateSuccessResponse ext (ResponseType info) schemas2 of
                  (success, schemas3) \<Rightarrow>
                    Some (\<lparr>OpSummary = Summary ext (Method info) (Path info),
                            Parameters = parameters,
                            OpRequestBody = requestBody,
                            Responses = [(''200'', success), (''400'', generateErrorResponse)],
                            Security = security\<rparr>,
                          schemas3, securitySchemes'))))"

text \<open>
  A middleware admits a request when it calls \<open>c.Next()\<close>. The schemes that
  \<open>MultiSecurity\<close> knows how to try are the two of the package itself.
\<close>

definition admits :: "SecurityScheme \<Rightarrow> Context \<Rightarrow> bool" where
  "admits s c = (case Middleware s c of Next c' \<Rightarrow> True | Abort status code message \<Rightarrow> False)"

fun is_builtin :: "SecurityScheme \<Rightarrow> bool" where
  "is_builtin (APIKeySecurity name description loc keyName validateKey) = True"
| "is_builtin (BearerSecurity name description bearerFormat validateToken) = True"
| "is_builtin s = False"

section \<open>Example schemas and requests\<close>

text \<open>
  Libraries for the concrete examples: no text is a float, the body decoder returns the
  value it is given, and the validator accepts every instance.
\<close>

definition lib0 :: extern where
  "lib0 =
     \<lparr>ParseFloat = (\<lambda>s. Inl (NumError ''ParseFloat'' s ErrSyntax)),
      SetFloat32 = (\<lambda>f. f),
      float_to_int = (\<lambda>f. 0),
      ShouldBindJSON = (\<lambda>c t v. Inr v),
      validate_Struct = (\<lambda>t v. None),
      Summary = (\<lambda>m p. m @ '' '' @ p)\<rparr>"

text \<open>A request with no path parameter, no query string, no header, no cookie, no body.\<close>

definition request0 :: Context where
  "request0 =
     \<lparr>Param = (\<lambda>k. []), Query = (\<lambda>k. []), GetHeader = (\<lambda>k. []), Cookie = (\<lambda>k. []),
      ContentLength = 0, Keys = []\<rparr>"

text \<open>
  The schema of the two parsing scenarios:
  \<^verbatim>\<open>
  type GetItemSchema struct {
      Params struct { ID string `param:"id" validate:"required"` }
      Query  struct { Limit int `query:"limit" default:"10"` }
  }
  \<close>
  and its zero value.
\<close>

definition GetItemSchema :: Type where
  "GetItemSchema =
     TStruct ''GetItemSchema''
       [StructField ''Params'' []
          (TStruct [] [StructField ''ID'' [(''param'', ''id''), (''validate'', ''required'')]
                         (TBasic KString)]),
        StructField ''Query'' []
          (TStruct [] [StructField ''Limit'' [(''query'', ''limit''), (''default'', ''10'')]
                         (TBasic KInt)])]"

definition GetItemZero :: Value where
  "GetItemZero = VStruct [VStruct [VString []], VStruct [VInt 0]]"

text \<open>
  A schema with a required query parameter and no default:
  \<^verbatim>\<open>
  type SearchSchema struct {
      Params struct { Tenant string `param:"tenant" validate:"required"` }
      Query  struct { Q string `query:"q" validate:"required"` }
  }
  \<close>
\<close>

definition SearchSchema :: Type where
  "SearchSchema =
     TStruct ''SearchSchema''
       [StructField ''Params'' []
          (TStruct [] [StructField ''Tenant'' [(''param'', ''tenant''), (''validate'', ''required'')]
                         (TBasic KString)]),
        StructField ''Query'' []
          (TStruct [] [StructField ''Q'' [(''query'', ''q''), (''validate'', ''required'')]
                         (TBasic KString)])]"

definition SearchZero :: Value where
  "SearchZero = VStruct [VStruct [VString []], VStruct [VString []]]"

text \<open>
  A schema with a primitive top-level field, which the document generator lists as a query
  parameter:
  \<^verbatim>\<open>
  type ListSchema struct {
      Page int `json:"page" default:"1"`
  }
  \<close>
\<close>

definition ListSchema :: Type where
  "ListSchema =
     TStruct ''ListSchema''
       [StructField ''Page'' [(''json'', ''page''), (''default'', ''1'')] (TBasic KInt)]"

text \<open>
  A schema whose body has no required field, and one whose body has one:
  \<^verbatim>\<open>
  Body struct { Note string `json:"note"` }
  Body struct { Name string `json:"name" validate:"required"` }
  \<close>
\<close>

definition OptionalBody :: "StructField list" where
  "OptionalBody = [StructField ''Note'' [(''json'', ''note'')] (TBasic KString)]"

definition RequiredBody :: "StructField list" where
  "RequiredBody =
     [StructField ''Name'' [(''json'', ''name''), (''validate'', ''required'')] (TBasic KString)]"

text \<open>Requests for the examples.\<close>

definition request_item :: Context where
  "request_item = request0\<lparr>Param := (\<lambda>k. if k = ''id'' then ''42'' else [])\<rparr>"

definition request_item_bad_limit :: Context where
  "request_item_bad_limit =
     request0\<lparr>Param := (\<lambda>k. if k = ''id'' then ''42'' else []),
              Query := (\<lambda>k. if k = ''limit'' then ''abc'' else [])\<rparr>"

definition request_tenant :: Context where
  "request_tenant = request0\<lparr>Param := (\<lambda>k. if k = ''tenant'' then ''acme'' else [])\<rparr>"

definition request_page5 :: Context where
  "request_page5 = request0\<lparr>Query := (\<lambda>k. if k = ''page'' then ''5'' else [])\<rparr>"


text \<open>
  The response type of the search example:
  \<^verbatim>\<open>
  type SearchResponse struct {
      Page struct {
          Current      int `json:"current"`
          Size         int `json:"size"`
          TotalPages   int `json:"total_pages"`
          TotalResults int `json:"total_results"`
      }
      Query struct {
          CustomerId string `json:"customer_id"`
          Page       int    `json:"page"`
          PageSize   int    `json:"page_size"`
          Query      string `json:"query"`
          TenantId   string `json:"tenant_id"`
      }
      Results []struct {
          Type     string  `json:"type"`
          EntityId string  `json:"ref"`
          Score    float64 `json:"score"`
          Title    string  `json:"title"`
          Details  string  `json:"details"`
      }
  }
  \<close>
\<close>

definition SearchResponse_Page :: Type where
  "SearchResponse_Page =
     TStruct []
       [StructField ''Current'' [(''json'', ''current'')] (TBasic KInt),
        StructField ''Size'' [(''json'', ''size'')] (TBasic KInt),
        StructField ''TotalPages'' [(''json'', ''total_pages'')] (TBasic KInt),
        StructField ''TotalResults'' [(''json'', ''total_results'')] (TBasic KInt)]"

definition SearchResponse_Query :: Type where
  "SearchResponse_Query =
     TStruct []
       [StructField ''CustomerId'' [(''json'', ''customer_id'')] (TBasic KString),
        StructField ''Page'' [(''json'', ''page'')] (TBasic KInt),
        StructField ''PageSize'' [(''json'', ''page_size'')] (TBasic KInt),
        StructField ''Query'' [(''json'', ''query'')] (TBasic KString),
        StructField ''TenantId'' [(''json'', ''tenant_id'')] (TBasic KString)]"

definition SearchResponse_Result :: Type where
  "SearchResponse_Result =
     TStruct []
       [StructField ''Type'' [(''json'', ''type'')] (TBasic KString),
        StructField ''EntityId'' [(''json'', ''ref'')] (TBasic KString),
        StructField ''Score'' [(''json'', ''score'')] (TBasic KFloat64),
        StructField ''Title'' [(''json'', ''title'')] (TBasic KString),
        StructField ''Details'' [(''json'', ''details'')] (TBasic KString)]"

definition SearchResponse :: Type where
  "SearchResponse =
     TStruct ''SearchResponse''
       [StructField ''Page'' [] SearchResponse_Page,
        StructField ''Query'' [] SearchResponse_Query,
        StructField ''Results'' [] (TSlice SearchResponse_Result)]"

text \<open>
  The example of the documentation, with a sequence of anonymous records:
  \<^verbatim>\<open>
  type SearchResponse struct {
      Page struct {
          Current int `json:"current"`
          Total   int `json:"total"`
      } `json:"page"`
      Results []struct {
          ID    string `json:"id"`
          Title string `json:"title"`
      } `json:"results"`
  }
  \<close>
\<close>

definition DocSearchResponse :: Type where
  "DocSearchResponse =
     TStruct ''SearchResponse''
       [StructField ''Page'' [(''json'', ''page'')]
          (TStruct []
             [StructField ''Current'' [(''json'', ''current'')] (TBasic KInt),
              StructField ''Total'' [(''json'', ''total'')] (TBasic KInt)]),
        StructField ''Results'' [(''json'', ''results'')]
          (TSlice
             (TStruct []
                [StructField ''ID'' [(''json'', ''id'')] (TBasic KString),
                 StructField ''Title'' [(''json'', ''title'')] (TBasic KString)]))]"

text \<open>
  Two types of one package whose names meet in the table:
  \<^verbatim>\<open>
  type FooPage struct { N int `json:"n"` }
  type Foo struct {
      Page struct { Inner FooPage `json:"inner"` } `json:"page"`
  }
  \<close>
\<close>

definition FooPage :: Type where
  "FooPage = TStruct ''FooPage'' [StructField ''N'' [(''json'', ''n'')] (TBasic KInt)]"

definition Foo :: Type where
  "Foo =
     TStruct ''Foo''
       [StructField ''Page'' [(''json'', ''page'')]
          (TStruct [] [StructField ''Inner'' [(''json'', ''inner'')] FooPage])]"

text \<open>Security schemes for the examples: an API key in a header and a bearer token.\<close>

definition apiKeyAuth :: SecurityScheme where
  "apiKeyAuth =
     APIKeySecurity ''ApiKeyAuth'' [] ''header'' ''X-API-Key''
       (Some (\<lambda>c key. key = ''secret-key''))"

definition bearerAuth :: SecurityScheme where
  "bearerAuth =
     BearerSecurity ''BearerAuth'' [] ''JWT'' (Some (\<lambda>c token. token = ''valid-token''))"

definition request_with_key :: Context where
  "request_with_key =
     request0\<lparr>GetHeader := (\<lambda>k. if k = ''X-API-Key'' then ''secret-key'' else [])\<rparr>"

definition request_with_token :: Context where
  "request_with_token =
     request0\<lparr>GetHeader := (\<lambda>k. if k = ''Authorization'' then ''Bearer valid-token'' else [])\<rparr>"

section \<open>Properties of the request parser\<close>

subsection \<open>Integer fields narrower than 64 bits\<close>

lemma SetInt_range: "- (2 ^ (bits k - 1)) \<le> SetInt k x \<and> SetInt k x < 2 ^ (bits k - 1)"
proof -
  have "bits k > 0" by (cases k) simp_all
  then have e: "(2::int) ^ bits k = 2 * 2 ^ (bits k - 1)"
    by (metis Suc_pred' power_Suc)
  have "0 \<le> (x + 2 ^ (bits k - 1)) mod 2 ^ bits k" by simp
  moreover have "(x + 2 ^ (bits k - 1)) mod 2 ^ bits k < 2 ^ bits k" by simp
  ultimately show ?thesis unfolding SetInt_def using e by linarith
qed

lemma SetInt_cong: "SetInt k x mod 2 ^ bits k = x mod 2 ^ bits k"
proof -
  have "SetInt k x mod 2 ^ bits k =
        ((x + 2 ^ (bits k - 1)) mod 2 ^ bits k - 2 ^ (bits k - 1)) mod 2 ^ bits k"
    by (simp add: SetInt_def)
  also have "\<dots> = ((x + 2 ^ (bits k - 1)) - 2 ^ (bits k - 1)) mod 2 ^ bits k"
    by (rule mod_diff_left_eq)
  finally show ?thesis by simp
qed

text \<open>\<open>SetInt\<close> and \<open>SetUint\<close> are the conversions of machine words.\<close>

lemma SetInt_word:
  "SetInt KInt8 x = sint (word_of_int x :: 8 word)"
  "SetInt KInt16 x = sint (word_of_int x :: 16 word)"
  "SetInt KInt32 x = sint (word_of_int x :: 32 word)"
  by (simp_all add: SetInt_def sint_uint uint_word_of_int signed_take_bit_eq_take_bit_shift
        take_bit_eq_mod mod_add_left_eq)

lemma SetUint_word:
  "SetUint KUint8 x = unat (of_nat x :: 8 word)"
  "SetUint KUint16 x = unat (of_nat x :: 16 word)"
  "SetUint KUint32 x = unat (of_nat x :: 32 word)"
  by (simp_all add: SetUint_def unat_of_nat)

text \<open>
  A text of decimal digits whose number is below \<open>2^63\<close> parses at 64 bits, whatever the
  width of the field it is meant for.
\<close>

lemma foldl_decimal_mono:
  "n \<le> foldl (\<lambda>n c. n * 10 + the (digit_of c)) n s"
proof (induction s arbitrary: n)
  case Nil
  then show ?case by simp
next
  case (Cons c s)
  have "n \<le> n * 10 + the (digit_of c)" by simp
  also have "\<dots> \<le> foldl (\<lambda>n c. n * 10 + the (digit_of c)) (n * 10 + the (digit_of c)) s"
    by (rule Cons.IH)
  finally show ?case by simp
qed

lemma ParseUint_loop_digits:
  "list_all (\<lambda>c. digit_of c \<noteq> None) s \<Longrightarrow>
   foldl (\<lambda>n c. n * 10 + the (digit_of c)) n s < 2 ^ 64 \<Longrightarrow>
   ParseUint_loop n s = Inr (foldl (\<lambda>n c. n * 10 + the (digit_of c)) n s)"
proof (induction s arbitrary: n)
  case Nil
  then show ?case by simp
next
  case (Cons c s)
  from Cons.prems(1) obtain d where d: "digit_of c = Some d" by auto
  have "n * 10 + d \<le> foldl (\<lambda>n c. n * 10 + the (digit_of c)) (n * 10 + d) s"
    by (rule foldl_decimal_mono)
  with Cons.prems(2) d have b: "n * 10 + d < 2 ^ 64" by simp
  then have nn: "\<not> (2 ^ 64 div 10 + 1 \<le> n)" by simp
  from b have bb: "\<not> (2 ^ 64 - 1 < n * 10 + d)" by simp
  from Cons.prems(1) have t: "list_all (\<lambda>c. digit_of c \<noteq> None) s" by simp
  from Cons.prems(2) d
  have f: "foldl (\<lambda>n c. n * 10 + the (digit_of c)) (n * 10 + d) s < 2 ^ 64" by simp
  have "ParseUint_loop n (c # s) = ParseUint_loop (n * 10 + d) s"
    using d nn bb by (simp only: ParseUint_loop.simps option.case if_False)
  also have "\<dots> = Inr (foldl (\<lambda>n c. n * 10 + the (digit_of c)) (n * 10 + d) s)"
    by (rule Cons.IH [OF t f])
  finally show ?case using d by simp
qed

lemma ParseUint_decimal:
  "s \<noteq> [] \<Longrightarrow> list_all (\<lambda>c. digit_of c \<noteq> None) s \<Longrightarrow> decimal s < 2 ^ 64 \<Longrightarrow>
   ParseUint s = Inr (decimal s)"
  by (simp add: ParseUint_def decimal_def ParseUint_loop_digits)

lemma ParseInt_decimal:
  assumes "s \<noteq> []" "list_all (\<lambda>c. digit_of c \<noteq> None) s" "decimal s < 2 ^ 63"
  shows "ParseInt s = Inr (int (decimal s))"
proof -
  from assms(1) obtain c cs where s: "s = c # cs" by (cases s) auto
  with assms(2) have "digit_of c \<noteq> None" by simp
  then have c: "c \<noteq> CHR ''+''" "c \<noteq> CHR ''-''"
    by (auto simp: digit_of_def)
  from assms have "ParseUint s = Inr (decimal s)"
    by (intro ParseUint_decimal) simp_all
  with c assms(3) show ?thesis
    by (simp add: ParseInt_def s)
qed

text \<open>
  C10. A field of kind int8, int16, int32, uint8, uint16 or uint32: when the text parses
  as a 64-bit number, \<open>setFieldValue\<close> returns no error, and the number stored is the
  parsed one reduced modulo \<open>2^w\<close>, \<open>w\<close> the width of the field (read in two's complement
  for a signed field). No range check against the field's own width is made.
\<close>

theorem setFieldValue_narrow_wraps:
  "(k \<in> set [KInt8, KInt16, KInt32] \<and> ParseInt s = Inr v \<longrightarrow>
      setFieldValue ext (TBasic k) s = Inr (VInt (SetInt k v)) \<and>
      - (2 ^ (bits k - 1)) \<le> SetInt k v \<and> SetInt k v < 2 ^ (bits k - 1) \<and>
      SetInt k v mod 2 ^ bits k = v mod 2 ^ bits k) \<and>
   (k \<in> set [KUint8, KUint16, KUint32] \<and> ParseUint s = Inr u \<longrightarrow>
      setFieldValue ext (TBasic k) s = Inr (VUint (SetUint k u)) \<and>
      SetUint k u = u mod 2 ^ bits k)"
proof (intro conjI impI)
  assume "k \<in> set [KInt8, KInt16, KInt32] \<and> ParseInt s = Inr v"
  then show "setFieldValue ext (TBasic k) s = Inr (VInt (SetInt k v))"
    by (auto simp: setFieldValue_def is_int_kind_def)
next
  show "- (2 ^ (bits k - 1)) \<le> SetInt k v" "SetInt k v < 2 ^ (bits k - 1)"
    using SetInt_range [of k v] by simp_all
next
  show "SetInt k v mod 2 ^ bits k = v mod 2 ^ bits k"
    by (rule SetInt_cong)
next
  assume "k \<in> set [KUint8, KUint16, KUint32] \<and> ParseUint s = Inr u"
  then show "setFieldValue ext (TBasic k) s = Inr (VUint (SetUint k u))"
    by (auto simp: setFieldValue_def is_int_kind_def is_uint_kind_def)
next
  show "SetUint k u = u mod 2 ^ bits k"
    by (simp add: SetUint_def)
qed

theorem setFieldValue_narrow_wraps_witness:
  "ParseInt ''300'' = Inr 300 \<and> ParseUint ''300'' = Inr 300 \<and>
   setFieldValue lib0 (TBasic KInt8) ''300'' = Inr (VInt 44) \<and>
   setFieldValue lib0 (TBasic KUint8) ''300'' = Inr (VUint 44)"
proof -
  have p: "ParseInt ''300'' = Inr 300"
    by (simp add: ParseInt_def ParseUint_def digit_of_def)
  have q: "ParseUint ''300'' = Inr 300"
    by (simp add: ParseUint_def digit_of_def)
  have i: "SetInt KInt8 300 = 44"
    by (simp add: SetInt_def)
  have u: "SetUint KUint8 300 = 44"
    by (simp add: SetUint_def)
  from p i setFieldValue_narrow_wraps [of KInt8 "''300''" 300 lib0]
  have a: "setFieldValue lib0 (TBasic KInt8) ''300'' = Inr (VInt 44)" by simp
  from q u setFieldValue_narrow_wraps [of KUint8 "''300''" _ lib0 300]
  have b: "setFieldValue lib0 (TBasic KUint8) ''300'' = Inr (VUint 44)" by simp
  from p q a b show ?thesis by simp
qed

subsection \<open>The two parsing scenarios\<close>

text \<open>
  C4. The schema with \<open>Params.ID\<close> (string, required) and \<open>Query.Limit\<close> (int, default
  10), no Body: a request with path parameter \<open>id = "42"\<close> and an empty query string is
  parsed into the instance \<open>{ID: "42", Limit: 10}\<close> with no error, once the validator has
  no objection to that instance.
\<close>

theorem parse_applies_default:
  assumes "Param c ''id'' = ''42''"
    and "\<forall>k. Query c k = []"
    and "validate_Struct ext GetItemSchema (VStruct [VStruct [VString ''42''], VStruct [VInt 10]]) = None"
  shows "parseSchema ext c GetItemSchema GetItemZero =
           (OK, VStruct [VStruct [VString ''42''], VStruct [VInt 10]]) \<and>
         ginHandler_parse ext c GetItemSchema GetItemZero =
           Instance (VStruct [VStruct [VString ''42''], VStruct [VInt 10]])"
proof -
  have i: "ParseInt ''10'' = Inr 10"
    by (simp add: ParseInt_def ParseUint_def digit_of_def)
  have "parseSchema_loop ext c
          [StructField ''Params'' []
             (TStruct [] [StructField ''ID'' [(''param'', ''id''), (''validate'', ''required'')]
                            (TBasic KString)]),
           StructField ''Query'' []
             (TStruct [] [StructField ''Limit'' [(''query'', ''limit''), (''default'', ''10'')]
                            (TBasic KInt)])]
          [VStruct [VString []], VStruct [VInt 0]] =
        (OK, [VStruct [VString ''42''], VStruct [VInt 10]])"
    using assms(1,2) i
    by (simp add: parseParams_def parseQuery_def CanSet_def IsExported_def ToLower_def
          lower_char_def getTagValue_def Tag_Get_def first_part_def isRequired_def
          setFieldValue_def query_lookup_def is_int_kind_def SetInt_def)
  with assms(3) have "parseSchema ext c GetItemSchema GetItemZero =
           (OK, VStruct [VStruct [VString ''42''], VStruct [VInt 10]])"
    by (simp add: parseSchema_def GetItemSchema_def GetItemZero_def)
  then show ?thesis by (simp add: ginHandler_parse_def)
qed

theorem parse_applies_default_witness:
  "parseSchema lib0 request_item GetItemSchema GetItemZero =
   (OK, VStruct [VStruct [VString ''42''], VStruct [VInt 10]])"
  using parse_applies_default [of request_item lib0]
  by (simp add: request_item_def request0_def lib0_def)

text \<open>
  C5. The same schema, a request whose query string has \<open>limit=abc\<close>: parsing fails with
  the conversion error of \<open>strconv.ParseInt\<close> on the query parameter \<open>limit\<close>, and the
  boundary mapping gives the code \<open>ERR_INVALID_QUERY\<close>. The field \<open>Limit\<close> keeps its value.
\<close>

theorem parse_bad_limit:
  assumes "Param c ''id'' = ''42''"
    and "Query c ''limit'' = ''abc''"
  shows "parseSchema ext c GetItemSchema GetItemZero =
           (Failed (''query validation failed: invalid query param '' @ [CHR 0x27] @ ''limit'' @
                    [CHR 0x27] @ '': '' @ NumError ''ParseInt'' ''abc'' ErrSyntax),
            VStruct [VStruct [VString ''42''], VStruct [VInt 0]]) \<and>
         ginHandler_parse ext c GetItemSchema GetItemZero =
           BadRequest \<lparr>Code = ''ERR_INVALID_QUERY'',
                       Message = ''invalid query param '' @ [CHR 0x27] @ ''limit'' @ [CHR 0x27] @
                                 '': '' @ NumError ''ParseInt'' ''abc'' ErrSyntax\<rparr>"
proof -
  have i: "ParseInt ''abc'' = Inl ErrSyntax"
    by (simp add: ParseInt_def ParseUint_def digit_of_def)
  have l: "parseSchema_loop ext c
          [StructField ''Params'' []
             (TStruct [] [StructField ''ID'' [(''param'', ''id''), (''validate'', ''required'')]
                            (TBasic KString)]),
           StructField ''Query'' []
             (TStruct [] [StructField ''Limit'' [(''query'', ''limit''), (''default'', ''10'')]
                            (TBasic KInt)])]
          [VStruct [VString []], VStruct [VInt 0]] =
        (Failed (''query validation failed: invalid query param '' @ [CHR 0x27] @ ''limit'' @
                 [CHR 0x27] @ '': '' @ NumError ''ParseInt'' ''abc'' ErrSyntax),
         [VStruct [VString ''42''], VStruct [VInt 0]])"
    using assms i
    by (simp add: parseParams_def parseQuery_def CanSet_def IsExported_def ToLower_def
          lower_char_def getTagValue_def Tag_Get_def first_part_def isRequired_def
          setFieldValue_def query_lookup_def is_int_kind_def)
  then have p: "parseSchema ext c GetItemSchema GetItemZero =
           (Failed (''query validation failed: invalid query param '' @ [CHR 0x27] @ ''limit'' @
                    [CHR 0x27] @ '': '' @ NumError ''ParseInt'' ''abc'' ErrSyntax),
            VStruct [VStruct [VString ''42''], VStruct [VInt 0]])"
    by (simp add: parseSchema_def GetItemSchema_def GetItemZero_def)
  have "convertToErrorResult
          (ErrorString (''query validation failed: invalid query param '' @ [CHR 0x27] @
                        ''limit'' @ [CHR 0x27] @ '': '' @ NumError ''ParseInt'' ''abc'' ErrSyntax)) =
        \<lparr>Code = ''ERR_INVALID_QUERY'',
         Message = ''invalid query param '' @ [CHR 0x27] @ ''limit'' @ [CHR 0x27] @
                   '': '' @ NumError ''ParseInt'' ''abc'' ErrSyntax\<rparr>"
    by (simp add: convertToErrorResult_def NotOk_def extractValidationMessage_def NumError_def
          Quote_def)
  with p show ?thesis by (simp add: ginHandler_parse_def)
qed

theorem parse_bad_limit_witness:
  "ginHandler_parse lib0 request_item_bad_limit GetItemSchema GetItemZero =
   BadRequest \<lparr>Code = ''ERR_INVALID_QUERY'',
               Message = ''invalid query param '' @ [CHR 0x27] @ ''limit'' @ [CHR 0x27] @
                         '': '' @ NumError ''ParseInt'' ''abc'' ErrSyntax\<rparr>"
  using parse_bad_limit [of request_item_bad_limit lib0]
  by (simp add: request_item_bad_limit_def request0_def)

subsection \<open>An empty body\<close>

text \<open>
  C8. A request with no content (\<open>ContentLength = 0\<close>) and a Body sub-record: when no
  field of the Body is marked required, \<open>parseBody\<close> returns no error, does not call the
  decoder and leaves the Body as it was; when some field is marked required, it returns
  the error "request body is required", which the parser reports as a failure of the
  body pass.
\<close>

theorem empty_body:
  assumes "ContentLength c = 0"
  shows "(\<not> list_ex isRequired fs \<longrightarrow> parseBody ext c (TStruct n fs) v = (OK, v)) \<and>
         (list_ex isRequired fs \<longrightarrow>
            parseBody ext c (TStruct n fs) v = (Failed ''request body is required'', v) \<and>
            Code (convertToErrorResult
                    (ErrorString (''body validation failed: '' @ ''request body is required''))) =
              ''ERR_INVALID_BODY'')"
  using assms
  by (simp add: parseBody_def convertToErrorResult_def NotOk_def)

theorem empty_body_witness:
  "parseBody lib0 request0 (TStruct [] OptionalBody) (VStruct [VString []]) =
     (OK, VStruct [VString []]) \<and>
   parseBody lib0 request0 (TStruct [] RequiredBody) (VStruct [VString []]) =
     (Failed ''request body is required'', VStruct [VString []])"
proof -
  have c: "ContentLength request0 = 0" by (simp add: request0_def)
  have o: "\<not> list_ex isRequired OptionalBody"
    by (simp add: OptionalBody_def isRequired_def Tag_Get_def)
  have r: "list_ex isRequired RequiredBody"
    by (simp add: RequiredBody_def isRequired_def Tag_Get_def)
  from o empty_body [OF c, of OptionalBody lib0 "[]" "VStruct [VString []]"]
  have a: "parseBody lib0 request0 (TStruct [] OptionalBody) (VStruct [VString []]) =
             (OK, VStruct [VString []])" by simp
  from r empty_body [OF c, of RequiredBody lib0 "[]" "VStruct [VString []]"]
  have b: "parseBody lib0 request0 (TStruct [] RequiredBody) (VStruct [VString []]) =
             (Failed ''request body is required'', VStruct [VString []])" by simp
  from a b show ?thesis by simp
qed

subsection \<open>What the parser leaves alone\<close>

lemma parseSchema_loop_length:
  "parseSchema_loop ext c fs vs = (st, vs') \<Longrightarrow> length vs' = length vs"
proof (induction fs arbitrary: vs st vs')
  case Nil
  then show ?case by simp
next
  case (Cons f fs)
  show ?case
  proof (cases vs)
    case Nil
    with Cons.prems show ?thesis by simp
  next
    case vs: (Cons v vs0)
    obtain st1 vs1 where r: "parseSchema_loop ext c fs vs0 = (st1, vs1)"
      by (cases "parseSchema_loop ext c fs vs0")
    note ih = Cons.IH [OF r]
    from Cons.prems ih r show ?thesis
      unfolding vs
      by (auto simp: Let_def split: if_splits prod.splits status.splits)
  qed
qed

lemma parseSchema_loop_frame:
  "parseSchema_loop ext c fs vs = (st, vs') \<Longrightarrow> i < length fs \<Longrightarrow> i < length vs \<Longrightarrow>
   ToLower (Name (fs ! i)) \<notin> {''params'', ''query'', ''body''} \<Longrightarrow> vs' ! i = vs ! i"
proof (induction fs arbitrary: vs st vs' i)
  case Nil
  then show ?case by simp
next
  case (Cons f fs)
  show ?case
  proof (cases vs)
    case Nil
    with Cons.prems show ?thesis by simp
  next
    case vs: (Cons v vs0)
    obtain st1 vs1 where r: "parseSchema_loop ext c fs vs0 = (st1, vs1)"
      by (cases "parseSchema_loop ext c fs vs0")
    show ?thesis
    proof (cases i)
      case 0
      with Cons.prems r show ?thesis
        unfolding vs
        by (auto simp: Let_def split: if_splits prod.splits status.splits)
    next
      case (Suc j)
      with Cons.prems vs have j: "j < length fs" "j < length vs0"
        "ToLower (Name (fs ! j)) \<notin> {''params'', ''query'', ''body''}"
        by simp_all
      note ih = Cons.IH [OF r j]
      from Cons.prems ih r Suc show ?thesis
        unfolding vs
        by (auto simp: Let_def split: if_splits prod.splits status.splits)
    qed
  qed
qed

text \<open>
  C9. Whatever the request and however parsing ends (no error, an error or a panic), a
  top-level field of the schema whose lower-cased name is not \<open>params\<close>, \<open>query\<close> or
  \<open>body\<close> holds after \<open>parseSchema\<close> the value it held before: starting from the zero
  instance, it is still zero. This includes the primitive top-level fields that the
  document generator lists as query parameters.
\<close>

theorem parse_leaves_other_fields:
  assumes "i < length fs" and "i < length vs"
    and "ToLower (Name (fs ! i)) \<notin> {''params'', ''query'', ''body''}"
  shows "\<exists>vs'. snd (parseSchema ext c (TStruct n fs) (VStruct vs)) = VStruct vs' \<and>
               length vs' = length vs \<and> vs' ! i = vs ! i"
proof -
  obtain st vs1 where r: "parseSchema_loop ext c fs vs = (st, vs1)"
    by (cases "parseSchema_loop ext c fs vs")
  have l: "length vs1 = length vs"
    by (rule parseSchema_loop_length [OF r])
  have f: "vs1 ! i = vs ! i"
    by (rule parseSchema_loop_frame [OF r assms])
  have "snd (parseSchema ext c (TStruct n fs) (VStruct vs)) = VStruct vs1"
    using r by (simp add: parseSchema_def split: status.splits option.splits)
  with l f show ?thesis by simp
qed

subsection \<open>A required parameter without a value\<close>

lemma HasPrefix_append: "HasPrefix (p @ s) p"
  by (induction p) simp_all

lemma Contains_HasPrefix: "HasPrefix s p \<Longrightarrow> Contains s p"
  by (cases s; cases p) simp_all

lemma Contains_append_left: "Contains (p @ s) p"
  by (rule Contains_HasPrefix) (rule HasPrefix_append)

lemma parseSchema_loop_append:
  "length vpre = length pre \<Longrightarrow>
   parseSchema_loop ext c (pre @ fs) (vpre @ vs) =
     (case parseSchema_loop ext c pre vpre of
        (OK, vpre') \<Rightarrow> (case parseSchema_loop ext c fs vs of (st, vs') \<Rightarrow> (st, vpre' @ vs'))
      | (st, vpre') \<Rightarrow> (st, vpre' @ vs))"
proof (induction pre arbitrary: vpre)
  case Nil
  then show ?case by (simp split: prod.splits)
next
  case (Cons f pre)
  then obtain v vpre0 where v: "vpre = v # vpre0" "length vpre0 = length pre"
    by (cases vpre) auto
  note ih = Cons.IH [OF v(2)]
  show ?case
    unfolding v(1)
    by (simp add: ih Let_def split: prod.splits status.splits)
qed

lemma parseQuery_loop_append:
  "length vpre = length pre \<Longrightarrow>
   parseQuery_loop ext c (pre @ fs) (vpre @ vs) =
     (case parseQuery_loop ext c pre vpre of
        (OK, vpre') \<Rightarrow> (case parseQuery_loop ext c fs vs of (st, vs') \<Rightarrow> (st, vpre' @ vs'))
      | (st, vpre') \<Rightarrow> (st, vpre' @ vs))"
proof (induction pre arbitrary: vpre)
  case Nil
  then show ?case by (simp split: prod.splits)
next
  case (Cons f pre)
  then obtain v vpre0 where v: "vpre = v # vpre0" "length vpre0 = length pre"
    by (cases vpre) auto
  note ih = Cons.IH [OF v(2)]
  show ?case
    unfolding v(1)
    by (simp add: ih Let_def split: prod.splits status.splits sum.splits)
qed

lemma parseParams_loop_append:
  "length vpre = length pre \<Longrightarrow>
   parseParams_loop ext c (pre @ fs) (vpre @ vs) =
     (case parseParams_loop ext c pre vpre of
        (OK, vpre') \<Rightarrow> (case parseParams_loop ext c fs vs of (st, vs') \<Rightarrow> (st, vpre' @ vs'))
      | (st, vpre') \<Rightarrow> (st, vpre' @ vs))"
proof (induction pre arbitrary: vpre)
  case Nil
  then show ?case by (simp split: prod.splits)
next
  case (Cons f pre)
  then obtain v vpre0 where v: "vpre = v # vpre0" "length vpre0 = length pre"
    by (cases vpre) auto
  note ih = Cons.IH [OF v(2)]
  show ?case
    unfolding v(1)
    by (simp add: ih Let_def split: prod.splits status.splits sum.splits)
qed

lemma Code_query_failure:
  "Code (convertToErrorResult (ErrorString (''query validation failed: '' @ e))) \<in>
     {''ERR_INVALID_QUERY'', ''ERR_INVALID_PARAMS''}"
proof -
  have "''query validation failed: '' @ e = ''query validation failed'' @ ('': '' @ e)"
    by simp
  then have "Contains (''query validation failed: '' @ e) ''query validation failed''"
    by (simp only: Contains_append_left)
  then show ?thesis
    by (simp only: convertToErrorResult_def error.case Error.simps Let_def NotOk_def
          ErrorInfo.simps if_True insert_iff split: if_splits) simp
qed

lemma Code_params_failure:
  "Code (convertToErrorResult (ErrorString (''params validation failed: '' @ e))) =
     ''ERR_INVALID_PARAMS''"
proof -
  have "''params validation failed: '' @ e = ''params validation failed'' @ ('': '' @ e)"
    by simp
  then have "Contains (''params validation failed: '' @ e) ''params validation failed''"
    by (simp only: Contains_append_left)
  then show ?thesis
    by (simp only: convertToErrorResult_def error.case Error.simps Let_def NotOk_def
          ErrorInfo.simps if_True)
qed

text \<open>
  What the parser does with a required parameter that has no value. A settable field of
  the Query sub-record that is marked required, declares no default and has no value in
  the request (under its query name, its field name or its lower-cased field name),
  reached after the fields before it were assigned without error: parsing fails with
  "query validation failed: required query param '<name>' is missing", the field is left
  as it was, and the boundary mapping gives the code of the pass, \<open>ERR_INVALID_QUERY\<close>
  (\<open>ERR_INVALID_PARAMS\<close> when the text also contains "params validation failed"). A
  settable required field of the Params sub-record with no value fails likewise with
  "params validation failed: required param '<name>' is missing" and the code
  \<open>ERR_INVALID_PARAMS\<close>. The field is never skipped silently, and the code is never
  \<open>ERR_MISSING_REQUIRED\<close>.
\<close>

theorem missing_required_fails_with_pass_code:
  "(length vtpre = length tpre \<and> parseSchema_loop ext c tpre vtpre = (OK, vtpre') \<and>
    CanSet qf \<and> ToLower (Name qf) = ''query'' \<and> FType qf = TStruct qn (pre @ f # post) \<and>
    length vpre = length pre \<and> parseQuery_loop ext c pre vpre = (OK, vpre') \<and>
    CanSet f \<and> isRequired f \<and> getTagValue f ''default'' = [] \<and> snd (query_lookup c f) = []
    \<longrightarrow>
      parseSchema ext c (TStruct n (tpre @ qf # tpost))
          (VStruct (vtpre @ VStruct (vpre @ v # vpost) # vtpost)) =
        (Failed (''query validation failed: required query param '' @ [CHR 0x27] @
                 fst (query_lookup c f) @ [CHR 0x27] @ '' is missing''),
         VStruct (vtpre' @ VStruct (vpre' @ v # vpost) # vtpost)) \<and>
      (\<exists>r. ginHandler_parse ext c (TStruct n (tpre @ qf # tpost))
               (VStruct (vtpre @ VStruct (vpre @ v # vpost) # vtpost)) = BadRequest r \<and>
           Code r \<in> {''ERR_INVALID_QUERY'', ''ERR_INVALID_PARAMS''} \<and>
           Code r \<noteq> ''ERR_MISSING_REQUIRED'')) \<and>
   (length vtpre = length tpre \<and> parseSchema_loop ext c tpre vtpre = (OK, vtpre') \<and>
    CanSet pf \<and> ToLower (Name pf) = ''params'' \<and> FType pf = TStruct pn (pre @ g # post) \<and>
    length vpre = length pre \<and> parseParams_loop ext c pre vpre = (OK, vpre') \<and>
    CanSet g \<and> isRequired g \<and>
    Param c (if getTagValue g ''param'' = [] then ToLower (Name g) else getTagValue g ''param'') = []
    \<longrightarrow>
      parseSchema ext c (TStruct n (tpre @ pf # tpost))
          (VStruct (vtpre @ VStruct (vpre @ v # vpost) # vtpost)) =
        (Failed (''params validation failed: required param '' @ [CHR 0x27] @
                 (if getTagValue g ''param'' = [] then ToLower (Name g)
                  else getTagValue g ''param'') @ [CHR 0x27] @ '' is missing''),
         VStruct (vtpre' @ VStruct (vpre' @ v # vpost) # vtpost)) \<and>
      (\<exists>r. ginHandler_parse ext c (TStruct n (tpre @ pf # tpost))
               (VStruct (vtpre @ VStruct (vpre @ v # vpost) # vtpost)) = BadRequest r \<and>
           Code r = ''ERR_INVALID_PARAMS''))"
proof (intro conjI impI)
  assume a: "length vtpre = length tpre \<and> parseSchema_loop ext c tpre vtpre = (OK, vtpre') \<and>
    CanSet qf \<and> ToLower (Name qf) = ''query'' \<and> FType qf = TStruct qn (pre @ f # post) \<and>
    length vpre = length pre \<and> parseQuery_loop ext c pre vpre = (OK, vpre') \<and>
    CanSet f \<and> isRequired f \<and> getTagValue f ''default'' = [] \<and> snd (query_lookup c f) = []"
  let ?m = "''required query param '' @ [CHR 0x27] @ fst (query_lookup c f) @ [CHR 0x27] @
            '' is missing''"
  from a have "parseQuery_loop ext c (f # post) (v # vpost) = (Failed ?m, v # vpost)"
    by simp
  with a have "parseQuery_loop ext c (pre @ f # post) (vpre @ v # vpost) =
                 (Failed ?m, vpre' @ v # vpost)"
    by (simp add: parseQuery_loop_append)
  with a have q: "parseQuery ext c (FType qf) (VStruct (vpre @ v # vpost)) =
                 (Failed ?m, VStruct (vpre' @ v # vpost))"
    by (simp add: parseQuery_def)
  have "ToLower (Name qf) \<noteq> ''params''" using a by simp
  with a q have "parseSchema_loop ext c (qf # tpost) (VStruct (vpre @ v # vpost) # vtpost) =
                 (Failed (''query validation failed: '' @ ?m),
                  VStruct (vpre' @ v # vpost) # vtpost)"
    by (simp add: Let_def)
  with a have "parseSchema_loop ext c (tpre @ qf # tpost)
                 (vtpre @ VStruct (vpre @ v # vpost) # vtpost) =
               (Failed (''query validation failed: '' @ ?m),
                vtpre' @ VStruct (vpre' @ v # vpost) # vtpost)"
    by (simp add: parseSchema_loop_append)
  then have p: "parseSchema ext c (TStruct n (tpre @ qf # tpost))
          (VStruct (vtpre @ VStruct (vpre @ v # vpost) # vtpost)) =
        (Failed (''query validation failed: '' @ ?m),
         VStruct (vtpre' @ VStruct (vpre' @ v # vpost) # vtpost))"
    by (simp add: parseSchema_def)
  then show "parseSchema ext c (TStruct n (tpre @ qf # tpost))
          (VStruct (vtpre @ VStruct (vpre @ v # vpost) # vtpost)) =
        (Failed (''query validation failed: required query param '' @ [CHR 0x27] @
                 fst (query_lookup c f) @ [CHR 0x27] @ '' is missing''),
         VStruct (vtpre' @ VStruct (vpre' @ v # vpost) # vtpost))"
    by simp
  from p have g: "ginHandler_parse ext c (TStruct n (tpre @ qf # tpost))
               (VStruct (vtpre @ VStruct (vpre @ v # vpost) # vtpost)) =
             BadRequest (convertToErrorResult (ErrorString (''query validation failed: '' @ ?m)))"
    by (simp add: ginHandler_parse_def)
  have "Code (convertToErrorResult (ErrorString (''query validation failed: '' @ ?m))) \<in>
          {''ERR_INVALID_QUERY'', ''ERR_INVALID_PARAMS''}"
    by (rule Code_query_failure)
  moreover from this
  have "Code (convertToErrorResult (ErrorString (''query validation failed: '' @ ?m))) \<noteq>
          ''ERR_MISSING_REQUIRED''"
    by auto
  ultimately show "\<exists>r. ginHandler_parse ext c (TStruct n (tpre @ qf # tpost))
               (VStruct (vtpre @ VStruct (vpre @ v # vpost) # vtpost)) = BadRequest r \<and>
           Code r \<in> {''ERR_INVALID_QUERY'', ''ERR_INVALID_PARAMS''} \<and>
           Code r \<noteq> ''ERR_MISSING_REQUIRED''"
    using g by blast
next
  assume a: "length vtpre = length tpre \<and> parseSchema_loop ext c tpre vtpre = (OK, vtpre') \<and>
    CanSet pf \<and> ToLower (Name pf) = ''params'' \<and> FType pf = TStruct pn (pre @ g # post) \<and>
    length vpre = length pre \<and> parseParams_loop ext c pre vpre = (OK, vpre') \<and>
    CanSet g \<and> isRequired g \<and>
    Param c (if getTagValue g ''param'' = [] then ToLower (Name g) else getTagValue g ''param'') = []"
  let ?pn = "if getTagValue g ''param'' = [] then ToLower (Name g) else getTagValue g ''param''"
  let ?m = "''required param '' @ [CHR 0x27] @ ?pn @ [CHR 0x27] @ '' is missing''"
  from a have "parseParams_loop ext c (g # post) (v # vpost) = (Failed ?m, v # vpost)"
    by (simp add: Let_def)
  with a have "parseParams_loop ext c (pre @ g # post) (vpre @ v # vpost) =
                 (Failed ?m, vpre' @ v # vpost)"
    by (simp add: parseParams_loop_append)
  with a have q: "parseParams ext c (FType pf) (VStruct (vpre @ v # vpost)) =
                 (Failed ?m, VStruct (vpre' @ v # vpost))"
    by (simp add: parseParams_def)
  with a have "parseSchema_loop ext c (pf # tpost) (VStruct (vpre @ v # vpost) # vtpost) =
                 (Failed (''params validation failed: '' @ ?m),
                  VStruct (vpre' @ v # vpost) # vtpost)"
    by (simp add: Let_def)
  with a have "parseSchema_loop ext c (tpre @ pf # tpost)
                 (vtpre @ VStruct (vpre @ v # vpost) # vtpost) =
               (Failed (''params validation failed: '' @ ?m),
                vtpre' @ VStruct (vpre' @ v # vpost) # vtpost)"
    by (simp add: parseSchema_loop_append)
  then have p: "parseSchema ext c (TStruct n (tpre @ pf # tpost))
          (VStruct (vtpre @ VStruct (vpre @ v # vpost) # vtpost)) =
        (Failed (''params validation failed: '' @ ?m),
         VStruct (vtpre' @ VStruct (vpre' @ v # vpost) # vtpost))"
    by (simp add: parseSchema_def)
  then show "parseSchema ext c (TStruct n (tpre @ pf # tpost))
          (VStruct (vtpre @ VStruct (vpre @ v # vpost) # vtpost)) =
        (Failed (''params validation failed: required param '' @ [CHR 0x27] @
                 (if getTagValue g ''param'' = [] then ToLower (Name g)
                  else getTagValue g ''param'') @ [CHR 0x27] @ '' is missing''),
         VStruct (vtpre' @ VStruct (vpre' @ v # vpost) # vtpost))"
    by simp
  from p have g: "ginHandler_parse ext c (TStruct n (tpre @ pf # tpost))
               (VStruct (vtpre @ VStruct (vpre @ v # vpost) # vtpost)) =
             BadRequest (convertToErrorResult (ErrorString (''params validation failed: '' @ ?m)))"
    by (simp add: ginHandler_parse_def)
  have "Code (convertToErrorResult (ErrorString (''params validation failed: '' @ ?m))) =
          ''ERR_INVALID_PARAMS''"
    by (rule Code_params_failure)
  then show "\<exists>r. ginHandler_parse ext c (TStruct n (tpre @ pf # tpost))
               (VStruct (vtpre @ VStruct (vpre @ v # vpost) # vtpost)) = BadRequest r \<and>
           Code r = ''ERR_INVALID_PARAMS''"
    using g by blast
qed

theorem missing_required_fails_with_pass_code_witness:
  "parseSchema lib0 request_tenant SearchSchema SearchZero =
     (Failed (''query validation failed: required query param '' @ [CHR 0x27] @ ''q'' @
              [CHR 0x27] @ '' is missing''),
      VStruct [VStruct [VString ''acme''], VStruct [VString []]]) \<and>
   parseSchema lib0 request0 SearchSchema SearchZero =
     (Failed (''params validation failed: required param '' @ [CHR 0x27] @ ''tenant'' @
              [CHR 0x27] @ '' is missing''),
      VStruct [VStruct [VString []], VStruct [VString []]])"
proof -
  let ?P = "StructField ''Params'' []
              (TStruct [] [StructField ''Tenant''
                             [(''param'', ''tenant''), (''validate'', ''required'')]
                             (TBasic KString)])"
  let ?Q = "StructField ''Query'' []
              (TStruct [] [StructField ''Q'' [(''query'', ''q''), (''validate'', ''required'')]
                             (TBasic KString)])"
  let ?q = "StructField ''Q'' [(''query'', ''q''), (''validate'', ''required'')] (TBasic KString)"
  let ?t = "StructField ''Tenant'' [(''param'', ''tenant''), (''validate'', ''required'')]
              (TBasic KString)"
  have s: "SearchSchema = TStruct ''SearchSchema'' ([?P] @ ?Q # [])"
    "SearchSchema = TStruct ''SearchSchema'' ([] @ ?P # [?Q])"
    by (simp_all add: SearchSchema_def)
  have z: "SearchZero = VStruct ([VStruct [VString []]] @ VStruct ([] @ VString [] # []) # [])"
    "SearchZero = VStruct ([] @ VStruct ([] @ VString [] # []) # [VStruct [VString []]])"
    by (simp_all add: SearchZero_def)
  have p: "parseSchema_loop lib0 request_tenant [?P] [VStruct [VString []]] =
             (OK, [VStruct [VString ''acme'']])"
    by (simp add: parseParams_def CanSet_def IsExported_def ToLower_def lower_char_def
          getTagValue_def Tag_Get_def first_part_def setFieldValue_def request_tenant_def
          request0_def)
  have h: "CanSet ?Q" "ToLower (Name ?Q) = ''query''" "CanSet ?q" "isRequired ?q"
    "getTagValue ?q ''default'' = []" "snd (query_lookup request_tenant ?q) = []"
    "fst (query_lookup request_tenant ?q) = ''q''"
    "CanSet ?P" "ToLower (Name ?P) = ''params''" "CanSet ?t" "isRequired ?t"
    "getTagValue ?t ''param'' = ''tenant''" "Param request0 ''tenant'' = []"
    by (simp_all add: CanSet_def IsExported_def ToLower_def lower_char_def getTagValue_def
          Tag_Get_def first_part_def isRequired_def query_lookup_def request_tenant_def
          request0_def)
  from p h
    missing_required_fails_with_pass_code
      [where tpre = "[?P]" and vtpre = "[VStruct [VString []]]"
         and vtpre' = "[VStruct [VString ''acme'']]" and qf = ?Q and pre = "[]" and f = ?q
         and post = "[]" and vpre = "[]" and vpre' = "[]" and ext = lib0
         and c = request_tenant and qn = "[]" and n = "''SearchSchema''" and tpost = "[]"
         and v = "VString []" and vpost = "[]" and vtpost = "[]"]
  have a: "parseSchema lib0 request_tenant SearchSchema SearchZero =
     (Failed (''query validation failed: required query param '' @ [CHR 0x27] @ ''q'' @
              [CHR 0x27] @ '' is missing''),
      VStruct [VStruct [VString ''acme''], VStruct [VString []]])"
    unfolding s(1) z(1) by simp
  from h
    missing_required_fails_with_pass_code
      [where tpre = "[]" and vtpre = "[]" and vtpre' = "[]" and pf = ?P and pre = "[]"
         and g = ?t and post = "[]" and vpre = "[]" and vpre' = "[]" and ext = lib0
         and c = request0 and pn = "[]" and n = "''SearchSchema''" and tpost = "[?Q]"
         and v = "VString []" and vpost = "[]" and vtpost = "[VStruct [VString []]]"]
  have b: "parseSchema lib0 request0 SearchSchema SearchZero =
     (Failed (''params validation failed: required param '' @ [CHR 0x27] @ ''tenant'' @
              [CHR 0x27] @ '' is missing''),
      VStruct [VStruct [VString []], VStruct [VString []]])"
    unfolding s(2) z(2) by simp
  from a b show ?thesis by simp
qed

text \<open>
  C2 at a concrete request. The schema has the required query parameter \<open>q\<close> with no
  default, the request has no query string: parsing fails, the message says that the
  required query parameter is missing, and the boundary mapping gives the code
  \<open>ERR_INVALID_QUERY\<close>. The branch of \<open>convertToErrorResult\<close> for a text with "required"
  and "missing", which gives \<open>ERR_MISSING_REQUIRED\<close>, comes after the branches for the
  pass prefixes and is not reached.
\<close>

theorem missing_required_surfaces_as_invalid_query:
  "ginHandler_parse lib0 request_tenant SearchSchema SearchZero =
     BadRequest \<lparr>Code = ''ERR_INVALID_QUERY'',
                 Message = ''required query param '' @ [CHR 0x27] @ ''q'' @ [CHR 0x27] @
                           '' is missing''\<rparr> \<and>
   ''ERR_INVALID_QUERY'' \<noteq> ''ERR_MISSING_REQUIRED''"
  by (simp add: ginHandler_parse_def parseSchema_def SearchSchema_def SearchZero_def
        parseParams_def parseQuery_def CanSet_def IsExported_def ToLower_def lower_char_def
        getTagValue_def Tag_Get_def first_part_def isRequired_def setFieldValue_def
        query_lookup_def request_tenant_def request0_def convertToErrorResult_def NotOk_def
        extractValidationMessage_def)

section \<open>Properties of the composed security scheme\<close>

lemma tryScheme_builtin: "is_builtin s \<Longrightarrow> fst (tryScheme s c) = admits s c"
proof (cases s)
  case (APIKeySecurity name description loc keyName validateKey)
  then show ?thesis
    by (simp add: admits_def tryAPIKey_def APIKeySecurity_Middleware_def split: option.splits)
next
  case (BearerSecurity name description bearerFormat validateToken)
  then show ?thesis
    by (simp add: admits_def tryBearer_def BearerSecurity_Middleware_def Let_def)
qed simp_all

lemma tryScheme_other: "\<not> is_builtin s \<Longrightarrow> tryScheme s c = (False, c)"
  by (cases s) simp_all

lemma tryScheme_failure_keeps_context: "\<not> fst (tryScheme s c) \<Longrightarrow> snd (tryScheme s c) = c"
  by (cases s) (auto simp: tryAPIKey_def tryBearer_def Let_def split: option.splits if_splits)

lemma MultiSecurity_Middleware_find:
  "MultiSecurity_Middleware schemes c =
     (case find (\<lambda>s. fst (tryScheme s c)) schemes of
        Some s \<Rightarrow> Next (snd (tryScheme s c))
      | None \<Rightarrow>
          Abort 401 ''UNAUTHORIZED''
            ''Valid authentication required (API key, bearer token, etc.)'')"
proof (induction schemes)
  case Nil
  then show ?case by simp
next
  case (Cons s schemes)
  show ?case
  proof (cases "fst (tryScheme s c)")
    case True
    then show ?thesis by (cases "tryScheme s c") simp
  next
    case False
    with tryScheme_failure_keeps_context [OF False] have "tryScheme s c = (False, c)"
      by (cases "tryScheme s c") simp
    with False Cons.IH show ?thesis by simp
  qed
qed

lemma append_requirements:
  "foldl (\<lambda>sec schemeName. sec @ [[(schemeName, [])]]) security names =
   security @ map (\<lambda>schemeName. [(schemeName, [])]) names"
  by (induction names arbitrary: security) simp_all

text \<open>
  C1, as the code has it. The middleware of a \<open>MultiSecurity\<close> admits a request exactly
  when one of its components that is an API key scheme or a bearer scheme admits it; the
  components are tried in their declared order and the first that accepts decides the
  context handed on. A component of any other kind is never accepted. In the document,
  the \<open>MultiSecurity\<close> becomes one security requirement for each component, in order,
  each holding the name of that component alone.
\<close>

theorem multi_security_or:
  "(admits (MultiSecurity name schemes) c \<longleftrightarrow> (\<exists>s \<in> set schemes. is_builtin s \<and> admits s c)) \<and>
   Middleware (MultiSecurity name schemes) c =
     (case find (\<lambda>s. fst (tryScheme s c)) schemes of
        Some s \<Rightarrow> Next (snd (tryScheme s c))
      | None \<Rightarrow>
          Abort 401 ''UNAUTHORIZED''
            ''Valid authentication required (API key, bearer token, etc.)'') \<and>
   fst (generateOperation_security [MultiSecurity name schemes] securitySchemes []) =
     map (\<lambda>s. [(fst (GetSecurityScheme s), [])]) schemes"
proof (intro conjI)
  have "admits (MultiSecurity name schemes) c \<longleftrightarrow>
        find (\<lambda>s. fst (tryScheme s c)) schemes \<noteq> None"
    by (simp add: admits_def MultiSecurity_Middleware_find split: option.splits)
  also have "\<dots> \<longleftrightarrow> (\<exists>s \<in> set schemes. fst (tryScheme s c))"
    by (auto simp: find_None_iff)
  also have "\<dots> \<longleftrightarrow> (\<exists>s \<in> set schemes. is_builtin s \<and> admits s c)"
    using tryScheme_builtin tryScheme_other by (metis fst_conv)
  finally show "admits (MultiSecurity name schemes) c \<longleftrightarrow>
                (\<exists>s \<in> set schemes. is_builtin s \<and> admits s c)" .
next
  show "Middleware (MultiSecurity name schemes) c =
     (case find (\<lambda>s. fst (tryScheme s c)) schemes of
        Some s \<Rightarrow> Next (snd (tryScheme s c))
      | None \<Rightarrow>
          Abort 401 ''UNAUTHORIZED''
            ''Valid authentication required (API key, bearer token, etc.)'')"
    by (simp add: MultiSecurity_Middleware_find)
next
  show "fst (generateOperation_security [MultiSecurity name schemes] securitySchemes []) =
     map (\<lambda>s. [(fst (GetSecurityScheme s), [])]) schemes"
    by (simp add: append_requirements comp_def)
qed

theorem multi_security_or_witness:
  "admits (MultiSecurity ''FlexibleAuth'' [apiKeyAuth, bearerAuth]) request_with_token \<and>
   is_builtin bearerAuth \<and> admits bearerAuth request_with_token \<and>
   \<not> admits apiKeyAuth request_with_token \<and>
   fst (generateOperation_security [MultiSecurity ''FlexibleAuth'' [apiKeyAuth, bearerAuth]] [] []) =
     [[(''ApiKeyAuth'', [])], [(''BearerAuth'', [])]]"
proof -
  have b: "is_builtin bearerAuth" "admits bearerAuth request_with_token"
    by (simp_all add: bearerAuth_def admits_def BearerSecurity_Middleware_def Let_def
          request_with_token_def request0_def ToLower_def lower_char_def)
  have a: "\<not> admits apiKeyAuth request_with_token"
    by (simp add: apiKeyAuth_def admits_def APIKeySecurity_Middleware_def apiKey_of_def
          request_with_token_def request0_def)
  from b have "\<exists>s \<in> set [apiKeyAuth, bearerAuth]. is_builtin s \<and> admits s request_with_token"
    by simp
  with multi_security_or [of "''FlexibleAuth''" "[apiKeyAuth, bearerAuth]" request_with_token "[]"]
  have m: "admits (MultiSecurity ''FlexibleAuth'' [apiKeyAuth, bearerAuth]) request_with_token"
    by blast
  from multi_security_or [of "''FlexibleAuth''" "[apiKeyAuth, bearerAuth]" request_with_token "[]"]
  have d: "fst (generateOperation_security
                  [MultiSecurity ''FlexibleAuth'' [apiKeyAuth, bearerAuth]] [] []) =
           [[(''ApiKeyAuth'', [])], [(''BearerAuth'', [])]]"
    by (simp add: apiKeyAuth_def bearerAuth_def)
  from m b a d show ?thesis by simp
qed

text \<open>
  C1 as stated fails for a component that is itself a \<open>MultiSecurity\<close>: the
  inner scheme admits the request with the valid API key, the scheme composed of it does
  not.
\<close>

theorem multi_security_nested_counterexample:
  "admits (MultiSecurity ''inner'' [apiKeyAuth]) request_with_key \<and>
   \<not> admits (MultiSecurity ''outer'' [MultiSecurity ''inner'' [apiKeyAuth]]) request_with_key"
  by (simp add: admits_def apiKeyAuth_def tryAPIKey_def apiKey_of_def request_with_key_def
        request0_def)

section \<open>Properties of the document generator\<close>

text \<open>
  C7. Generating the document for the response type \<open>SearchResponse\<close>, whose field
  \<open>Page\<close> is an anonymous struct, from an empty table: the table then holds a node named
  \<open>SearchResponsePage\<close>, the object with the four fields of \<open>Page\<close>, and a node named
  \<open>SearchResponse\<close>, whose property \<open>page\<close> refers to the former; the two nodes differ.
\<close>

theorem search_response_page_node:
  "map_of (snd (generateSuccessResponse ext (Some SearchResponse) [])) ''SearchResponsePage'' =
     Some (newJSONSchema ''object''
             [(''current'', newJSONSchema ''integer'' []),
              (''size'', newJSONSchema ''integer'' []),
              (''total_pages'', newJSONSchema ''integer'' []),
              (''total_results'', newJSONSchema ''integer'' [])]) \<and>
   map_of (snd (generateSuccessResponse ext (Some SearchResponse) [])) ''SearchResponse'' =
     Some (newJSONSchema ''object''
             [(''page'', RefSchema ''SearchResponsePage''),
              (''query'', RefSchema ''SearchResponseQuery''),
              (''results'', set_Items (newJSONSchema ''array'' []) (RefSchema ''Item''))]) \<and>
   map_of (snd (generateSuccessResponse ext (Some SearchResponse) [])) ''SearchResponsePage'' \<noteq>
   map_of (snd (generateSuccessResponse ext (Some SearchResponse) [])) ''SearchResponse''"
  by code_simp

text \<open>
  C6 on the example of the documentation: the element record of the field \<open>Results\<close>, a
  sequence of anonymous records, is stored under the name \<open>Item\<close>; no node is named
  \<open>SearchResponseResultsItem\<close>.
\<close>

theorem sequence_element_named_Item:
  "map fst (snd (generateJSONSchemaFromType ext DocSearchResponse [])) =
     [''SearchResponsePage'', ''Item'', ''SearchResponse''] \<and>
   map_of (snd (generateJSONSchemaFromType ext DocSearchResponse [])) ''SearchResponseResultsItem'' =
     None \<and>
   map_of (snd (generateJSONSchemaFromType ext DocSearchResponse [])) ''SearchResponse'' =
     Some (newJSONSchema ''object''
             [(''page'', RefSchema ''SearchResponsePage''),
              (''results'', set_Items (newJSONSchema ''array'' []) (RefSchema ''Item''))])"
  by code_simp

text \<open>
  A struct whose name is in the table when its generation starts is not generated again:
  the result is a reference to the stored node and the table is unchanged.
\<close>

lemma stored_name_is_reused:
  "map_of schemas (structSchemaName n contextName) \<noteq> None \<Longrightarrow>
   generateStructSchemaWithContext ext (TStruct n fs) schemas contextName =
     (RefSchema (structSchemaName n contextName), schemas)"
  by simp

text \<open>
  C3 on the types \<open>Foo\<close> and \<open>FooPage\<close>. While the anonymous struct of \<open>Foo.Page\<close> is
  generated under the name \<open>FooPage\<close>, its field of the named type \<open>FooPage\<close> stores the
  node of that type under the same name: this is the table when the loop over the fields
  ends. The anonymous struct is then stored over it, so in the finished table the name
  \<open>FooPage\<close> denotes a node that refers to itself, and the node of the named type is
  gone.
\<close>

theorem schema_table_entry_overwritten:
  "snd (snd (generateStruct_fields ext ''FooPage'' ''FooPage''
               [StructField ''Inner'' [(''json'', ''inner'')] FooPage] [] [] [])) =
     [(''FooPage'', newJSONSchema ''object'' [(''n'', newJSONSchema ''integer'' [])])] \<and>
   snd (generateJSONSchemaFromType ext Foo []) =
     [(''FooPage'', newJSONSchema ''object'' [(''inner'', RefSchema ''FooPage'')]),
      (''Foo'', newJSONSchema ''object'' [(''page'', RefSchema ''FooPage'')])]"
  by code_simp

theorem parse_leaves_other_fields_witness:
  "snd (parseSchema lib0 request_page5 ListSchema (VStruct [VInt 0])) = VStruct [VInt 0] \<and>
   fst (extractParameters lib0 ListSchema []) =
     [Parameter ''page'' ''query'' False (set_Default (newJSONSchema ''integer'' []) (AInt 1))]"
proof -
  have n: "ToLower (Name (StructField ''Page'' [(''json'', ''page''), (''default'', ''1'')]
                           (TBasic KInt))) \<notin> {''params'', ''query'', ''body''}"
    by (simp add: ToLower_def lower_char_def)
  from parse_leaves_other_fields
         [of 0 "[StructField ''Page'' [(''json'', ''page''), (''default'', ''1'')] (TBasic KInt)]"
             "[VInt 0]" lib0 request_page5 "''ListSchema''"] n
  obtain vs' where v: "snd (parseSchema lib0 request_page5 ListSchema (VStruct [VInt 0])) =
                         VStruct vs'" "length vs' = 1" "vs' ! 0 = VInt 0"
    by (auto simp: ListSchema_def)
  from v(2,3) have "vs' = [VInt 0]"
    by (cases vs') auto
  with v(1) have a: "snd (parseSchema lib0 request_page5 ListSchema (VStruct [VInt 0])) =
                       VStruct [VInt 0]" by simp
  have b: "fst (extractParameters lib0 ListSchema []) =
     [Parameter ''page'' ''query'' False (set_Default (newJSONSchema ''integer'' []) (AInt 1))]"
  proof -
    have i: "ParseInt ''1'' = Inr 1"
      by (simp add: ParseInt_def ParseUint_def digit_of_def)
    show ?thesis
      using i
      by (simp add: extractParameters_def ListSchema_def ToLower_def lower_char_def
            getTagValue_def Tag_Get_def first_part_def isQueryParameter_def
            is_primitive_kind_def is_int_kind_def getQueryParameterName_def
            getJSONFieldName_def generateJSONSchemaFromType_def basicSchema_def
            withDefault_def parseDefaultValue_def isRequired_def)
  qed
  from a b show ?thesis by simp
qed

end
